theory Spec2Isabelle
  imports Main
begin

section \<open>JavaScript values\<close>

text \<open>
  A JavaScript string is represented by its UTF-8 encoding, one \<^typ>\<open>char\<close> per byte; a
  Node \<open>Buffer\<close> is a list of bytes, again one \<^typ>\<open>char\<close> per byte. Strings with lone
  surrogates have no such representation and are outside the model.
\<close>

type_synonym buffer = "char list"

text \<open>
  A thrown value: an \<open>Error\<close> object with its message, or any other thrown value
  (for which \<open>error instanceof Error\<close> is false), kept as its \<open>String(error)\<close>.
\<close>

datatype exn = Error string | NonError string

fun error_text :: "exn \<Rightarrow> string" where
  "error_text (Error m) = m"
| "error_text (NonError v) = v"

text \<open>
  The values that travel through the storage backend are JSON values. Numbers are
  integers (timestamps and sizes); an object is the list of its own properties in
  enumeration order.
\<close>

datatype json =
    JNull
  | JBool bool
  | JNum int
  | JStr string
  | JArr "json list"
  | JObj "(string \<times> json) list"

text \<open>\<open>!!v\<close> for a value that may be \<open>undefined\<close> (\<open>None\<close>).\<close>

fun truthy :: "json option \<Rightarrow> bool" where
  "truthy None = False"
| "truthy (Some JNull) = False"
| "truthy (Some (JBool b)) = b"
| "truthy (Some (JNum n)) = (n \<noteq> 0)"
| "truthy (Some (JStr s)) = (s \<noteq> [])"
| "truthy (Some (JArr xs)) = True"
| "truthy (Some (JObj kvs)) = True"

text \<open>\<open>String.prototype.includes\<close>.\<close>

fun starts_with :: "string \<Rightarrow> string \<Rightarrow> bool" where
  "starts_with s [] = True"
| "starts_with [] (p # ps) = False"
| "starts_with (c # cs) (p # ps) = (c = p \<and> starts_with cs ps)"

fun str_includes :: "string \<Rightarrow> string \<Rightarrow> bool" where
  "str_includes [] p = (p = [])"
| "str_includes (c # cs) p = (starts_with (c # cs) p \<or> str_includes cs p)"

section \<open>The storage capability\<close>

text \<open>\<open>UploadOutput\<close>, of which the adapter reads \<open>id\<close>; \<open>None\<close> is a missing id.\<close>

record upload_output =
  out_id :: "string option"

text \<open>
  \<open>StorageService\<close> as the adapter sees it, over a backend state \<open>'s\<close>. The adapter
  tests at run time whether \<open>get\<close> and \<open>unpin\<close> exist, so these are optional; its
  constructor refuses a service without \<open>uploadJson\<close>. \<open>uploadJson\<close> takes the payload
  and the \<open>pinataMetadata\<close> name; it may resolve to \<open>null\<close> or \<open>undefined\<close> (\<open>None\<close>), and
  so may \<open>get\<close>.
\<close>

record 's storage =
  uploadJson :: "json \<Rightarrow> string \<Rightarrow> 's \<Rightarrow> (exn + upload_output option) \<times> 's"
  get :: "(string \<Rightarrow> 's \<Rightarrow> (exn + json option) \<times> 's) option"
  isPinned :: "string \<Rightarrow> 's \<Rightarrow> (exn + bool) \<times> 's"
  unpin :: "(string \<Rightarrow> 's \<Rightarrow> (exn + bool) \<times> 's) option"

section \<open>PinataService: pin status and unpin\<close>

text \<open>
  \<open>CID_PATTERN = /^(Qm[1-9A-HJ-NP-Za-km-z]{44,}|b[a-zA-Z0-9]{58,})/\<close>. The pattern is
  anchored at the start only, so \<open>test\<close> looks at a prefix of the hash.
\<close>

definition base58_char :: "char \<Rightarrow> bool" where
  "base58_char c =
     (c \<in> set ''123456789ABCDEFGHJKLMNPQRSTUVWXYZabcdefghijkmnopqrstuvwxyz'')"

definition alnum_char :: "char \<Rightarrow> bool" where
  "alnum_char c =
     (c \<in> set ''abcdefghijklmnopqrstuvwxyzABCDEFGHIJKLMNOPQRSTUVWXYZ0123456789'')"

definition CID_PATTERN_test :: "string \<Rightarrow> bool" where
  "CID_PATTERN_test h =
     ((starts_with h ''Qm'' \<and> 44 \<le> length (takeWhile base58_char (drop 2 h))) \<or>
      (starts_with h ''b'' \<and> 58 \<le> length (takeWhile alnum_char (drop 1 h))))"

text \<open>
  The \<open>PinResponse\<close> that \<open>upload.json\<close> of the Pinata SDK resolves to, of which the
  service reads \<open>IpfsHash\<close>, declared a string.
\<close>

record pin_response =
  IpfsHash :: string

text \<open>
  The Pinata SDK (\<open>serviceInstance\<close>) is the backend: \<open>gateways.get\<close>, \<open>unpin\<close> and
  \<open>upload.json\<close> act on a backend state \<open>'b\<close> and either return or throw. Every request the service
  issues is appended to \<open>requests\<close>.
\<close>

record 'b pinata_sdk =
  gateways_get :: "string \<Rightarrow> 'b \<Rightarrow> (exn + json option) \<times> 'b"
  sdk_unpin :: "string list \<Rightarrow> 'b \<Rightarrow> (exn + unit) \<times> 'b"
  upload_json :: "json \<Rightarrow> string \<Rightarrow> 'b \<Rightarrow> (exn + pin_response) \<times> 'b"

datatype request = GatewayGet string | UnpinRequest "string list" | UploadJsonRequest json string

record 'b pinata_state =
  remote :: 'b
  clock :: int
  lastRequestTime :: int
  requests :: "request list"

definition rateLimitMs :: int where
  "rateLimitMs = 500"

text \<open>
  \<open>enforceRateLimit\<close>: when less than \<open>rateLimitMs\<close> has passed since the last request
  the call sleeps for the remainder; the timer is taken to fire at its deadline.
\<close>

definition enforceRateLimit :: "'b pinata_state \<Rightarrow> 'b pinata_state" where
  "enforceRateLimit s =
     (let now = clock s;
          elapsed = now - lastRequestTime s;
          s1 = (if elapsed < rateLimitMs then s\<lparr>clock := now + (rateLimitMs - elapsed)\<rparr> else s)
      in s1\<lparr>lastRequestTime := clock s1\<rparr>)"

definition authError :: exn where
  "authError = Error ''Authentication error with Pinata: verify your JWT token''"

fun is_not_found_isPinned :: "exn \<Rightarrow> bool" where
  "is_not_found_isPinned (Error m) =
     (str_includes m ''NOT_FOUND'' \<or> str_includes m ''url does not contain CID'')"
| "is_not_found_isPinned (NonError v) = False"

fun is_invalid_credentials :: "exn \<Rightarrow> bool" where
  "is_invalid_credentials (Error m) = str_includes m ''INVALID_CREDENTIALS''"
| "is_invalid_credentials (NonError v) = False"

definition PinataService_isPinned ::
  "'b pinata_sdk \<Rightarrow> string \<Rightarrow> 'b pinata_state \<Rightarrow> (exn + bool) \<times> 'b pinata_state" where
  "PinataService_isPinned sdk hash s =
     (if hash = [] \<or> \<not> CID_PATTERN_test hash then (Inr False, s)
      else
        let s1 = enforceRateLimit s;
            (r, b) = gateways_get sdk hash (remote s1);
            s2 = s1\<lparr>remote := b, requests := requests s1 @ [GatewayGet hash]\<rparr>
        in (case r of
              Inr response \<Rightarrow> (Inr (truthy response), s2)
            | Inl e \<Rightarrow>
                if is_not_found_isPinned e then (Inr False, s2)
                else if is_invalid_credentials e then (Inl authError, s2)
                else (Inr False, s2)))"

fun is_not_found_unpin :: "exn \<Rightarrow> bool" where
  "is_not_found_unpin (Error m) =
     (str_includes m ''is not pinned'' \<or> str_includes m ''NOT_FOUND'' \<or>
      str_includes m ''url does not contain CID'')"
| "is_not_found_unpin (NonError v) = False"

text \<open>The \<open>catch\<close> block of \<open>unpin\<close>.\<close>

definition unpin_catch :: "exn \<Rightarrow> exn + bool" where
  "unpin_catch e =
     (if is_not_found_unpin e then Inr False
      else if is_invalid_credentials e then Inl authError
      else Inl e)"

definition PinataService_unpin ::
  "'b pinata_sdk \<Rightarrow> string \<Rightarrow> 'b pinata_state \<Rightarrow> (exn + bool) \<times> 'b pinata_state" where
  "PinataService_unpin sdk hash s =
     (if hash = [] \<or> \<not> CID_PATTERN_test hash then (Inr False, s)
      else
        (case PinataService_isPinned sdk hash s of
           (Inl e, s1) \<Rightarrow> (unpin_catch e, s1)
         | (Inr isPinnedBefore, s1) \<Rightarrow>
             if \<not> isPinnedBefore then (Inr False, s1)
             else
               let s2 = enforceRateLimit s1;
                   (r, b) = sdk_unpin sdk [hash] (remote s2);
                   s3 = s2\<lparr>remote := b, requests := requests s2 @ [UnpinRequest [hash]]\<rparr>
               in (case r of
                     Inr u \<Rightarrow> (Inr True, s3)
                   | Inl e \<Rightarrow> (unpin_catch e, s3))))"

section \<open>Node.js library functions used by the adapter\<close>

subsection \<open>Base64\<close>

definition base64_alphabet :: string where
  "base64_alphabet = ''ABCDEFGHIJKLMNOPQRSTUVWXYZabcdefghijklmnopqrstuvwxyz0123456789+/''"

definition base64_digit :: "nat \<Rightarrow> char" where
  "base64_digit n = base64_alphabet ! (n mod 64)"

text \<open>\<open>buffer.toString('base64')\<close>: three bytes become four digits, the tail is padded.\<close>

fun base64_encode :: "buffer \<Rightarrow> string" where
  "base64_encode (a # b # c # rest) =
     (let n = of_char a * 65536 + of_char b * 256 + (of_char c :: nat)
      in [base64_digit (n div 262144), base64_digit (n div 4096), base64_digit (n div 64),
          base64_digit n] @ base64_encode rest)"
| "base64_encode [a, b] =
     (let n = of_char a * 65536 + of_char b * (256 :: nat)
      in [base64_digit (n div 262144), base64_digit (n div 4096), base64_digit (n div 64),
          CHR ''=''])"
| "base64_encode [a] =
     (let n = of_char a * (65536 :: nat)
      in [base64_digit (n div 262144), base64_digit (n div 4096), CHR ''='', CHR ''=''])"
| "base64_encode [] = []"

text \<open>
  \<open>Buffer.from(s, 'base64')\<close>: characters outside the alphabet are skipped, the
  URL-safe digits \<open>-\<close> and \<open>_\<close> are accepted, decoding stops at the first \<open>=\<close>, and a
  trailing group of two or three digits yields one or two bytes.
\<close>

definition unbase64 :: "char \<Rightarrow> nat option" where
  "unbase64 c =
     (if c = CHR ''-'' then Some 62
      else if c = CHR ''_'' then Some 63
      else if c \<in> set base64_alphabet then Some (length (takeWhile (\<lambda>d. d \<noteq> c) base64_alphabet))
      else None)"

fun sextets_bytes :: "nat list \<Rightarrow> buffer" where
  "sextets_bytes (p # q # r # s # rest) =
     (let n = p * 262144 + q * 4096 + r * 64 + s
      in [char_of (n div 65536), char_of (n div 256), char_of n] @ sextets_bytes rest)"
| "sextets_bytes [p, q, r] =
     (let n = p * 262144 + q * 4096 + r * 64
      in [char_of (n div 65536), char_of (n div 256)])"
| "sextets_bytes [p, q] = (let n = p * 262144 + q * 4096 in [char_of (n div 65536)])"
| "sextets_bytes [p] = []"
| "sextets_bytes [] = []"

definition base64_decode :: "string \<Rightarrow> buffer" where
  "base64_decode s = sextets_bytes (List.map_filter unbase64 (takeWhile (\<lambda>c. c \<noteq> CHR ''='') s))"

subsection \<open>UTF-8\<close>

text \<open>
  \<open>buffer.toString('utf8')\<close> decodes with replacement: every maximal ill-formed
  subsequence becomes U+FFFD. In the UTF-8 representation of strings the result is the
  input with each such subsequence replaced by the bytes \<open>EF BF BD\<close>.
\<close>

definition replacement_char :: string where
  "replacement_char = [CHR 0xEF, CHR 0xBF, CHR 0xBD]"

datatype utf8_lead = Ascii | Lead nat nat nat | Invalid

text \<open>The first byte of a sequence: how many bytes follow and the range of the next one.\<close>

definition utf8_first :: "nat \<Rightarrow> utf8_lead" where
  "utf8_first b =
     (if b \<le> 127 then Ascii
      else if 194 \<le> b \<and> b \<le> 223 then Lead 1 128 191
      else if b = 224 then Lead 2 160 191
      else if b = 237 then Lead 2 128 159
      else if 225 \<le> b \<and> b \<le> 239 then Lead 2 128 191
      else if b = 240 then Lead 3 144 191
      else if b = 244 then Lead 3 128 143
      else if 241 \<le> b \<and> b \<le> 243 then Lead 3 128 191
      else Invalid)"

fun utf8_scan :: "nat \<Rightarrow> nat \<Rightarrow> nat \<Rightarrow> string \<Rightarrow> buffer \<Rightarrow> string" where
  "utf8_scan needed lo hi seen [] = (if needed = 0 then [] else replacement_char)"
| "utf8_scan needed lo hi seen (b # bs) =
     (if needed \<noteq> 0 \<and> lo \<le> (of_char b :: nat) \<and> (of_char b :: nat) \<le> hi then
        (if needed = 1 then seen @ [b] @ utf8_scan 0 128 191 [] bs
         else utf8_scan (needed - 1) 128 191 (seen @ [b]) bs)
      else
        (if needed \<noteq> 0 then replacement_char else []) @
        (case utf8_first (of_char b) of
           Ascii \<Rightarrow> b # utf8_scan 0 128 191 [] bs
         | Lead n l h \<Rightarrow> utf8_scan n l h [b] bs
         | Invalid \<Rightarrow> replacement_char @ utf8_scan 0 128 191 [] bs))"

definition utf8_toString :: "buffer \<Rightarrow> string" where
  "utf8_toString buf = utf8_scan 0 128 191 [] buf"

subsection \<open>JSON.stringify\<close>

definition hex_digit :: "nat \<Rightarrow> char" where
  "hex_digit n = ''0123456789abcdef'' ! (n mod 16)"

definition json_escape :: "char \<Rightarrow> string" where
  "json_escape c =
     (let n = (of_char c :: nat) in
      if n = 34 then [CHR 0x5C, CHR 0x22]
      else if n = 92 then [CHR 0x5C, CHR 0x5C]
      else if n = 8 then [CHR 0x5C, CHR ''b'']
      else if n = 9 then [CHR 0x5C, CHR ''t'']
      else if n = 10 then [CHR 0x5C, CHR ''n'']
      else if n = 12 then [CHR 0x5C, CHR ''f'']
      else if n = 13 then [CHR 0x5C, CHR ''r'']
      else if n < 32 then [CHR 0x5C, CHR ''u'', CHR ''0'', CHR ''0'', hex_digit (n div 16), hex_digit n]
      else [c])"

definition json_quote :: "string \<Rightarrow> string" where
  "json_quote s = [CHR 0x22] @ concat (map json_escape s) @ [CHR 0x22]"

fun show_nat :: "nat \<Rightarrow> string" where
  "show_nat n =
     (if n < 10 then [''0123456789'' ! n] else show_nat (n div 10) @ [''0123456789'' ! (n mod 10)])"

definition show_int :: "int \<Rightarrow> string" where
  "show_int i = (if i < 0 then CHR ''-'' # show_nat (nat (- i)) else show_nat (nat i))"

fun join_comma :: "string list \<Rightarrow> string" where
  "join_comma [] = []"
| "join_comma [x] = x"
| "join_comma (x # y # ys) = x @ '','' @ join_comma (y # ys)"

fun stringify :: "json \<Rightarrow> string" where
  "stringify JNull = ''null''"
| "stringify (JBool b) = (if b then ''true'' else ''false'')"
| "stringify (JNum n) = show_int n"
| "stringify (JStr s) = json_quote s"
| "stringify (JArr xs) = ''['' @ join_comma (map stringify xs) @ '']''"
| "stringify (JObj kvs) =
     ''{'' @ join_comma (map (\<lambda>kv. json_quote (fst kv) @ '':'' @ stringify (snd kv)) kvs) @ ''}''"

subsection \<open>Paths (POSIX flavour of \<open>path\<close>)\<close>

fun split_slash :: "string \<Rightarrow> string list" where
  "split_slash [] = [[]]"
| "split_slash (c # cs) =
     (if c = CHR ''/'' then [] # split_slash cs
      else (case split_slash cs of [] \<Rightarrow> [[c]] | seg # segs \<Rightarrow> (c # seg) # segs))"

fun join_slash :: "string list \<Rightarrow> string" where
  "join_slash [] = []"
| "join_slash [x] = x"
| "join_slash (x # y # ys) = x @ ''/'' @ join_slash (y # ys)"

text \<open>
  \<open>normalizeString\<close>: the segments are pushed on a stack (kept reversed); empty and
  \<open>.\<close> segments are dropped, \<open>..\<close> pops a segment that is not itself \<open>..\<close>.
\<close>

fun normalize_segments :: "bool \<Rightarrow> string list \<Rightarrow> string list \<Rightarrow> string list" where
  "normalize_segments allowAboveRoot stack [] = rev stack"
| "normalize_segments allowAboveRoot stack (seg # segs) =
     (if seg = [] \<or> seg = ''.'' then normalize_segments allowAboveRoot stack segs
      else if seg = ''..'' then
        (case stack of
           prev # below \<Rightarrow>
             if prev \<noteq> ''..'' then normalize_segments allowAboveRoot below segs
             else if allowAboveRoot then normalize_segments allowAboveRoot (seg # stack) segs
             else normalize_segments allowAboveRoot stack segs
         | [] \<Rightarrow>
             if allowAboveRoot then normalize_segments allowAboveRoot (seg # stack) segs
             else normalize_segments allowAboveRoot stack segs)
      else normalize_segments allowAboveRoot (seg # stack) segs)"

definition path_normalize :: "string \<Rightarrow> string" where
  "path_normalize p =
     (if p = [] then ''.''
      else
        let isAbsolute = (hd p = CHR ''/'');
            trailingSeparator = (last p = CHR ''/'');
            q = join_slash (normalize_segments (\<not> isAbsolute) [] (split_slash p))
        in if q = [] then (if isAbsolute then ''/'' else if trailingSeparator then ''./'' else ''.'')
           else (if isAbsolute then ''/'' else []) @ q @ (if trailingSeparator then ''/'' else []))"

definition path_join :: "string \<Rightarrow> string \<Rightarrow> string" where
  "path_join a b =
     (if a = [] \<and> b = [] then ''.''
      else if a = [] then path_normalize b
      else if b = [] then path_normalize a
      else path_normalize (a @ ''/'' @ b))"

definition strip_trailing_slashes :: "string \<Rightarrow> string" where
  "strip_trailing_slashes p = rev (dropWhile (\<lambda>c. c = CHR ''/'') (rev p))"

definition path_basename :: "string \<Rightarrow> string" where
  "path_basename p = rev (takeWhile (\<lambda>c. c \<noteq> CHR ''/'') (rev (strip_trailing_slashes p)))"

definition path_dirname :: "string \<Rightarrow> string" where
  "path_dirname p =
     (if p = [] then ''.''
      else
        let hasRoot = (hd p = CHR ''/'');
            r = dropWhile (\<lambda>c. c \<noteq> CHR ''/'') (dropWhile (\<lambda>c. c = CHR ''/'') (rev (tl p)))
        in if r = [] then (if hasRoot then ''/'' else ''.'')
           else if hasRoot \<and> length r = 1 then ''//''
           else take (length r) p)"

text \<open>
  \<open>path.extname\<close>: from the last dot of the last path component to its end; empty when
  there is no dot, when the dot is the first character of the component, or when the
  component is \<open>..\<close>.
\<close>

definition path_extname :: "string \<Rightarrow> string" where
  "path_extname p =
     (let base = path_basename p;
          after = takeWhile (\<lambda>c. c \<noteq> CHR ''.'') (rev base)
      in if CHR ''.'' \<notin> set base then []
         else if length after + 1 = length base then []
         else if base = ''..'' then []
         else CHR ''.'' # rev after)"

text \<open>
  \<open>toLowerCase\<close> on the ASCII letters. The results are only compared with the ASCII
  extensions below, and no other character lower-cases to a letter occurring in them.
\<close>

definition lower_char :: "char \<Rightarrow> char" where
  "lower_char c =
     (let n = (of_char c :: nat) in if 65 \<le> n \<and> n \<le> 90 then char_of (n + 32) else c)"

definition toLowerCase :: "string \<Rightarrow> string" where
  "toLowerCase s = map lower_char s"

text \<open>\<open>s.replace(/\\/g, "/")\<close>.\<close>

definition backslashes_to_slashes :: "string \<Rightarrow> string" where
  "backslashes_to_slashes s = map (\<lambda>c. if c = CHR 0x5C then CHR ''/'' else c) s"

subsection \<open>Objects\<close>

text \<open>
  An object made by \<open>{}\<close> is the list of its own properties in the order in which
  \<open>Object.entries\<close>, \<open>Object.keys\<close> and \<open>JSON.stringify\<close> go through them: first the
  array indices (the canonical decimal numerals below \<open>2^32 - 1\<close>) in ascending order,
  then the other names in the order of their creation.
\<close>

definition is_digit :: "char \<Rightarrow> bool" where
  "is_digit c = (c \<in> set ''0123456789'')"

definition decimal :: "string \<Rightarrow> nat" where
  "decimal s = foldl (\<lambda>n c. 10 * n + (of_char c - 48)) 0 s"

definition array_index :: "string \<Rightarrow> nat option" where
  "array_index k =
     (if k \<noteq> [] \<and> list_all is_digit k \<and> (k = ''0'' \<or> hd k \<noteq> CHR ''0'') \<and>
         decimal k < 4294967295
      then Some (decimal k) else None)"

definition index_below :: "nat \<Rightarrow> string \<times> json \<Rightarrow> bool" where
  "index_below n kv = (case array_index (fst kv) of Some i \<Rightarrow> i < n | None \<Rightarrow> False)"

text \<open>
  \<open>obj[k] = v\<close> on such an object. The name \<open>__proto__\<close> is the accessor inherited from
  \<open>Object.prototype\<close>: assigning to it adds no own property (an object assigned becomes
  the prototype, which neither \<open>Object.entries\<close> nor \<open>JSON.stringify\<close> looks at).
  Otherwise an existing property keeps its place, a new array index goes to its place
  among the indices, and any other new name goes last.
\<close>

definition js_set :: "(string \<times> json) list \<Rightarrow> string \<Rightarrow> json \<Rightarrow> (string \<times> json) list" where
  "js_set kvs k v =
     (if k = ''__proto__'' then kvs
      else if k \<in> fst ` set kvs then map (\<lambda>kv. if fst kv = k then (k, v) else kv) kvs
      else (case array_index k of
              None \<Rightarrow> kvs @ [(k, v)]
            | Some n \<Rightarrow> takeWhile (index_below n) kvs @ (k, v) # dropWhile (index_below n) kvs))"

text \<open>
  \<open>Object.entries\<close> of a JSON value: the properties of an object, the indexed elements
  of an array, the indexed characters of a string (one per byte here), nothing for
  numbers and booleans.
\<close>

fun indexed :: "nat \<Rightarrow> 'a list \<Rightarrow> (string \<times> 'a) list" where
  "indexed i [] = []"
| "indexed i (x # xs) = (show_nat i, x) # indexed (Suc i) xs"

fun entries :: "json \<Rightarrow> (string \<times> json) list" where
  "entries (JObj kvs) = kvs"
| "entries (JArr xs) = indexed 0 xs"
| "entries (JStr s) = indexed 0 (map (\<lambda>c. JStr [c]) s)"
| "entries v = []"

text \<open>
  \<open>v.k\<close> and \<open>v?.k\<close> for a fixed name \<open>k\<close>, as an own property; \<open>None\<close> is \<open>undefined\<close>.
  The names read in this way (\<open>data\<close>, \<open>metadata\<close>, \<open>versionInfo\<close>, \<open>isEncrypted\<close>,
  \<open>encrypted\<close>, \<open>iv\<close>, \<open>authTag\<close>, \<open>type\<close>, \<open>content\<close>) are not names of members of
  the built-in prototypes.
\<close>

definition js_prop :: "json \<Rightarrow> string \<Rightarrow> json option" where
  "js_prop v k = map_of (entries v) k"

fun opt_prop :: "json option \<Rightarrow> string \<Rightarrow> json option" where
  "opt_prop None k = None"
| "opt_prop (Some v) k = js_prop v k"

text \<open>
  What a lookup \<open>v[k]\<close> under a computed name finds: nothing, a value, or one of the
  built-in functions (which \<open>JSON.stringify\<close> maps to \<open>undefined\<close>).
\<close>

datatype member = Absent | Value json | BuiltinFunction

fun member_truthy :: "member \<Rightarrow> bool" where
  "member_truthy Absent = False"
| "member_truthy (Value v) = truthy (Some v)"
| "member_truthy BuiltinFunction = True"

text \<open>
  The members of \<open>Object.prototype\<close>, which every object made by \<open>{}\<close> or by
  \<open>JSON.parse\<close> inherits: eleven functions and the accessor \<open>__proto__\<close>, which yields the
  prototype (for such an object \<open>Object.prototype\<close> itself, serialised as \<open>{}\<close>).
\<close>

definition Object_prototype_member :: "string \<Rightarrow> member" where
  "Object_prototype_member k =
     (if k = ''__proto__'' then Value (JObj [])
      else if k \<in> set [''constructor'', ''__defineGetter__'', ''__defineSetter__'',
                        ''hasOwnProperty'', ''__lookupGetter__'', ''__lookupSetter__'',
                        ''isPrototypeOf'', ''propertyIsEnumerable'', ''toString'', ''valueOf'',
                        ''toLocaleString'']
      then BuiltinFunction
      else Absent)"

subsection \<open>PinataService as a storage capability\<close>

text \<open>\<open>uploadJson\<close>: the id is \<open>response.IpfsHash\<close>.\<close>

definition PinataService_uploadJson ::
  "'b pinata_sdk \<Rightarrow> json \<Rightarrow> string \<Rightarrow> 'b pinata_state \<Rightarrow>
   (exn + upload_output option) \<times> 'b pinata_state" where
  "PinataService_uploadJson sdk jsonData pinName s =
     (let s1 = enforceRateLimit s;
          (r, b) = upload_json sdk jsonData pinName (remote s1);
          s2 = s1\<lparr>remote := b, requests := requests s1 @ [UploadJsonRequest jsonData pinName]\<rparr>
      in (case r of
            Inr response \<Rightarrow> (Inr (Some \<lparr>out_id = Some (IpfsHash response)\<rparr>), s2)
          | Inl e \<Rightarrow> (if is_invalid_credentials e then Inl authError else Inl e, s2)))"

text \<open>
  \<open>PinataService\<close> as a storage capability. Its \<open>get\<close>, which rewrites the records it
  returns in place, is not part of this development and is absent here; the operations
  that fetch a snapshot are not applied to this instance.
\<close>

definition PinataService :: "'b pinata_sdk \<Rightarrow> 'b pinata_state storage" where
  "PinataService sdk =
     \<lparr>uploadJson = PinataService_uploadJson sdk,
      get = None,
      isPinned = PinataService_isPinned sdk,
      unpin = Some (PinataService_unpin sdk)\<rparr>"

subsection \<open>The file system that is read\<close>

text \<open>
  What the walk finds at a path: a regular file with its bytes, a directory with its
  entries in \<open>readdir\<close> order, or a regular file of a given size whose content cannot
  be read (the read fails with the given message).
\<close>

datatype fsnode =
    File buffer
  | Dir "(string \<times> fsnode) list"
  | Unreadable nat string

fun stat_size :: "fsnode \<Rightarrow> nat" where
  "stat_size (File content) = length content"
| "stat_size (Unreadable n msg) = n"
| "stat_size (Dir es) = 4096"

fun readFile :: "fsnode \<Rightarrow> exn + buffer" where
  "readFile (File content) = Inr content"
| "readFile (Unreadable n msg) = Inl (Error msg)"
| "readFile (Dir es) = Inl (Error ''EISDIR: illegal operation on a directory, read'')"

text \<open>
  \<open>createReadStream\<close> delivers the content in chunks of at most \<open>highWaterMark\<close> bytes
  (64 KiB), or fails as \<open>readFile\<close> does.
\<close>

fun read_chunks :: "nat \<Rightarrow> buffer \<Rightarrow> buffer list" where
  "read_chunks n [] = []"
| "read_chunks n (x # xs) = take (Suc n) (x # xs) # read_chunks n (drop n xs)"

definition createReadStream :: "fsnode \<Rightarrow> exn + buffer list" where
  "createReadStream node =
     (case readFile node of Inl e \<Rightarrow> Inl e | Inr content \<Rightarrow> Inr (read_chunks 65535 content))"

subsection \<open>crypto\<close>

text \<open>
  Node's \<open>crypto\<close> module is a parameter. \<open>randomBytes\<close> draws from an entropy source
  \<open>'r\<close>. \<open>cipher_run alg key iv data\<close> stands for \<open>createCipheriv(alg, key, iv)\<close>
  followed by \<open>update(data)\<close>, \<open>final()\<close> and \<open>getAuthTag()\<close>: it throws or yields the
  ciphertext and the tag. \<open>decipher_run alg key iv tag data\<close> stands for
  \<open>createDecipheriv(alg, key, iv)\<close>, \<open>setAuthTag(tag)\<close> when a tag is given,
  \<open>update(data)\<close> and \<open>final()\<close>.
\<close>

record 'r node_crypto =
  sha256 :: "string \<Rightarrow> buffer"
  randomBytes :: "nat \<Rightarrow> 'r \<Rightarrow> buffer \<times> 'r"
  cipher_run :: "string \<Rightarrow> buffer \<Rightarrow> buffer \<Rightarrow> buffer \<Rightarrow> exn + buffer \<times> buffer"
  decipher_run :: "string \<Rightarrow> buffer \<Rightarrow> buffer \<Rightarrow> buffer option \<Rightarrow> buffer \<Rightarrow> exn + buffer"

section \<open>Encryption\<close>

record Encryption =
  enc_algorithm :: string
  enc_key :: buffer

record encrypted_output =
  encrypted :: buffer
  iv :: buffer
  authTag :: "buffer option"

text \<open>\<open>constructor(key, algorithm = 'aes-256-gcm')\<close>.\<close>

definition new_Encryption :: "'r node_crypto \<Rightarrow> string \<Rightarrow> string option \<Rightarrow> Encryption" where
  "new_Encryption lib passphrase alg =
     \<lparr>enc_algorithm = (case alg of None \<Rightarrow> ''aes-256-gcm'' | Some a \<Rightarrow> a),
      enc_key = sha256 lib passphrase\<rparr>"

definition encrypt ::
  "'r node_crypto \<Rightarrow> Encryption \<Rightarrow> buffer \<Rightarrow> 'r \<Rightarrow> (exn + encrypted_output) \<times> 'r" where
  "encrypt lib this data g =
     (let (iv0, g') = randomBytes lib 16 g in
      case cipher_run lib (enc_algorithm this) (enc_key this) iv0 data of
        Inl e \<Rightarrow> (Inl e, g')
      | Inr (ct, tag) \<Rightarrow>
          (Inr \<lparr>encrypted = ct, iv = iv0,
                authTag = (if str_includes (enc_algorithm this) ''gcm'' then Some tag else None)\<rparr>,
           g'))"

definition decrypt ::
  "'r node_crypto \<Rightarrow> Encryption \<Rightarrow> buffer \<Rightarrow> buffer \<Rightarrow> buffer option \<Rightarrow> exn + buffer" where
  "decrypt lib this enc iv0 tag =
     decipher_run lib (enc_algorithm this) (enc_key this) iv0
       (if str_includes (enc_algorithm this) ''gcm'' then tag else None) enc"

section \<open>FileBackupAdapter: building the snapshot\<close>

record encryption_options =
  enabled :: bool
  key :: string
  algorithm :: "string option"

text \<open>
  \<open>BackupOptions\<close>, as far as the adapter reads them. An exclude pattern is the
  predicate \<open>name.match(pattern)\<close> it stands for.
\<close>

record BackupOptions =
  excludePatterns :: "(string \<Rightarrow> bool) list option"
  maxFileSize :: "nat option"
  encryption :: "encryption_options option"

definition isBinaryFile :: "string \<Rightarrow> bool" where
  "isBinaryFile filename =
     (toLowerCase (path_extname filename) \<in> set
        [''.png'', ''.jpg'', ''.jpeg'', ''.gif'', ''.bmp'', ''.pdf'', ''.doc'', ''.docx'',
         ''.xls'', ''.xlsx'', ''.zip'', ''.rar'', ''.7z'', ''.tar'', ''.gz''])"

definition getMimeType :: "string \<Rightarrow> string" where
  "getMimeType filename =
     (case map_of
        [(''.png'', ''image/png''), (''.jpg'', ''image/jpeg''), (''.jpeg'', ''image/jpeg''),
         (''.gif'', ''image/gif''), (''.bmp'', ''image/bmp''), (''.pdf'', ''application/pdf'')]
        (toLowerCase (path_extname filename)) of
        Some m \<Rightarrow> m
      | None \<Rightarrow> ''application/octet-stream'')"

text \<open>\<open>options?.excludePatterns?.some((pattern) => file.name.match(pattern))\<close>\<close>

definition excluded :: "BackupOptions option \<Rightarrow> string \<Rightarrow> bool" where
  "excluded options name =
     (case options of
        None \<Rightarrow> False
      | Some opts \<Rightarrow>
          (case excludePatterns opts of None \<Rightarrow> False | Some ps \<Rightarrow> list_ex (\<lambda>p. p name) ps))"

text \<open>\<open>options?.maxFileSize && stats.size > options.maxFileSize\<close>\<close>

definition over_maxFileSize :: "BackupOptions option \<Rightarrow> nat \<Rightarrow> bool" where
  "over_maxFileSize options sz =
     (case options of
        None \<Rightarrow> False
      | Some opts \<Rightarrow> (case maxFileSize opts of None \<Rightarrow> False | Some m \<Rightarrow> m \<noteq> 0 \<and> sz > m))"

text \<open>\<open>options?.encryption?.enabled && options.encryption.key\<close>: the encryption options when so.\<close>

definition encryption_requested :: "BackupOptions option \<Rightarrow> encryption_options option" where
  "encryption_requested options =
     (case options of
        None \<Rightarrow> None
      | Some opts \<Rightarrow>
          (case encryption opts of
             None \<Rightarrow> None
           | Some eo \<Rightarrow> if enabled eo \<and> key eo \<noteq> [] then Some eo else None))"

datatype route = Streaming | SingleShot

text \<open>
  The state of one walk: the snapshot under construction, the entropy source, and which
  of the two read paths handled each file.
\<close>

record 'r walk =
  backupData :: "(string \<times> json) list"
  entropy :: 'r
  routed :: "(string \<times> route) list"

definition file_failure :: "string \<Rightarrow> exn \<Rightarrow> exn" where
  "file_failure fullPath e = Error (''Failed to process file '' @ fullPath @ '': '' @ error_text e)"

definition processSmallFile ::
  "'r node_crypto \<Rightarrow> string \<Rightarrow> string \<Rightarrow> BackupOptions option \<Rightarrow> fsnode \<Rightarrow> 'r walk \<Rightarrow>
   (exn + unit) \<times> 'r walk" where
  "processSmallFile lib fullPath relativePath options node ws =
     (case readFile node of
        Inl e \<Rightarrow> (Inl (file_failure fullPath e), ws)
      | Inr content \<Rightarrow>
          let isBinary = isBinaryFile fullPath;
              mimeType = getMimeType fullPath
          in (case encryption_requested options of
                Some eo \<Rightarrow>
                  let encryptor = new_Encryption lib (key eo) (algorithm eo);
                      (r, g) = encrypt lib encryptor content (entropy ws)
                  in (case r of
                        Inl e \<Rightarrow> (Inl (file_failure fullPath e), ws\<lparr>entropy := g\<rparr>)
                      | Inr out \<Rightarrow>
                          let fileData = JObj
                                ([(''isEncrypted'', JBool True),
                                  (''encrypted'', JStr (base64_encode (encrypted out))),
                                  (''iv'', JStr (base64_encode (iv out)))] @
                                 (case authTag out of
                                    None \<Rightarrow> []
                                  | Some t \<Rightarrow> [(''authTag'', JStr (base64_encode t))]) @
                                 [(''mimeType'', JStr mimeType)])
                          in (Inr (),
                              ws\<lparr>entropy := g,
                                 backupData := js_set (backupData ws) relativePath fileData\<rparr>))
              | None \<Rightarrow>
                  let fileData = JObj
                        [(''type'', JStr (if isBinary then ''binary'' else ''text'')),
                         (''content'',
                          JStr (if isBinary then base64_encode content else utf8_toString content)),
                         (''mimeType'', JStr mimeType)]
                  in (Inr (), ws\<lparr>backupData := js_set (backupData ws) relativePath fileData\<rparr>)))"

text \<open>
  In the unencrypted branch the chunks of the read stream are concatenated when the
  stream ends, and the record is made from the whole buffer.
\<close>

definition processLargeFile ::
  "'r node_crypto \<Rightarrow> string \<Rightarrow> string \<Rightarrow> BackupOptions option \<Rightarrow> fsnode \<Rightarrow> 'r walk \<Rightarrow>
   (exn + unit) \<times> 'r walk" where
  "processLargeFile lib fullPath relativePath options node ws =
     (let isBinary = isBinaryFile fullPath;
          mimeType = getMimeType fullPath
      in (case encryption_requested options of
            Some eo \<Rightarrow>
              (case readFile node of
                 Inl e \<Rightarrow> (Inl (file_failure fullPath e), ws)
               | Inr content \<Rightarrow>
                   let encryptor = new_Encryption lib (key eo) (algorithm eo);
                       (r, g) = encrypt lib encryptor content (entropy ws)
                   in (case r of
                         Inl e \<Rightarrow> (Inl (file_failure fullPath e), ws\<lparr>entropy := g\<rparr>)
                       | Inr out \<Rightarrow>
                           (Inr (),
                            ws\<lparr>entropy := g,
                               backupData := js_set (backupData ws) relativePath
                                 (JObj
                                   ([(''isEncrypted'', JBool True),
                                     (''encrypted'', JStr (base64_encode (encrypted out))),
                                     (''iv'', JStr (base64_encode (iv out)))] @
                                    (case authTag out of
                                       None \<Rightarrow> []
                                     | Some t \<Rightarrow> [(''authTag'', JStr (base64_encode t))]) @
                                    [(''mimeType'', JStr mimeType)]))\<rparr>)))
          | None \<Rightarrow>
              (case createReadStream node of
                 Inl e \<Rightarrow> (Inl (file_failure fullPath e), ws)
               | Inr chunks \<Rightarrow>
                   let buffer = concat chunks
                   in (Inr (),
                       ws\<lparr>backupData := js_set (backupData ws) relativePath
                            (JObj
                              [(''type'', JStr (if isBinary then ''binary'' else ''text'')),
                               (''content'',
                                JStr (if isBinary then base64_encode buffer
                                      else utf8_toString buffer)),
                               (''mimeType'', JStr mimeType)])\<rparr>))))"

definition directory_failure :: "string \<Rightarrow> exn \<Rightarrow> exn" where
  "directory_failure dirPath e =
     Error (''Failed to process directory '' @ dirPath @ '': '' @ error_text e)"

text \<open>
  \<open>processDirectory\<close> is the \<open>try\<close>/\<open>catch\<close> around the loop over the entries, which
  \<open>processEntries\<close> runs. The node is what lies at \<open>dirPath\<close>; \<open>readdir\<close> fails on
  anything but a directory.
\<close>

fun processDirectory ::
  "'r node_crypto \<Rightarrow> string \<Rightarrow> string \<Rightarrow> BackupOptions option \<Rightarrow> fsnode \<Rightarrow> 'r walk \<Rightarrow>
   (exn + unit) \<times> 'r walk"
and processEntries ::
  "'r node_crypto \<Rightarrow> string \<Rightarrow> string \<Rightarrow> BackupOptions option \<Rightarrow> (string \<times> fsnode) list \<Rightarrow>
   'r walk \<Rightarrow> (exn + unit) \<times> 'r walk"
where
  "processDirectory lib dirPath baseDir options (Dir files) ws =
     (case processEntries lib dirPath baseDir options files ws of
        (Inl e, ws') \<Rightarrow> (Inl (directory_failure dirPath e), ws')
      | (Inr u, ws') \<Rightarrow> (Inr u, ws'))"
| "processDirectory lib dirPath baseDir options (File content) ws =
     (Inl (directory_failure dirPath
        (Error (''ENOTDIR: not a directory, scandir '' @ dirPath))), ws)"
| "processDirectory lib dirPath baseDir options (Unreadable n msg) ws =
     (Inl (directory_failure dirPath
        (Error (''ENOTDIR: not a directory, scandir '' @ dirPath))), ws)"
| "processEntries lib dirPath baseDir options [] ws = (Inr (), ws)"
| "processEntries lib dirPath baseDir options ((name, node) # files) ws =
     (if excluded options name then processEntries lib dirPath baseDir options files ws
      else
        let fullPath = path_join dirPath name;
            relativePath = backslashes_to_slashes (path_join baseDir name)
        in (case node of
              Dir sub \<Rightarrow>
                (case processDirectory lib fullPath relativePath options (Dir sub) ws of
                   (Inl e, ws') \<Rightarrow> (Inl e, ws')
                 | (Inr u, ws') \<Rightarrow> processEntries lib dirPath baseDir options files ws')
            | _ \<Rightarrow>
                if over_maxFileSize options (stat_size node) then
                  processEntries lib dirPath baseDir options files ws
                else if stat_size node > 1024 * 1024 then
                  (case processLargeFile lib fullPath relativePath options node
                          (ws\<lparr>routed := routed ws @ [(relativePath, Streaming)]\<rparr>) of
                     (Inl e, ws') \<Rightarrow> (Inl e, ws')
                   | (Inr u, ws') \<Rightarrow> processEntries lib dirPath baseDir options files ws')
                else
                  (case processSmallFile lib fullPath relativePath options node
                          (ws\<lparr>routed := routed ws @ [(relativePath, SingleShot)]\<rparr>) of
                     (Inl e, ws') \<Rightarrow> (Inl e, ws')
                   | (Inr u, ws') \<Rightarrow> processEntries lib dirPath baseDir options files ws')))"

section \<open>FileBackupAdapter: the operations\<close>

text \<open>
  The modules the adapter imports, and the built-ins it reaches.
  \<open>VersionManager.createVersionInfo\<close> (of the versioning module) and \<open>sha3_256\<close> (of
  js-sha3) are parameters; the first is given the serialised snapshot and the current
  time, and \<open>sha3_256_undefined\<close> is what \<open>sha3_256\<close> throws when its argument is
  \<open>undefined\<close>. \<open>fs_ensureDir\<close> and \<open>fs_writeFile\<close> act on the file system that
  \<open>restore\<close> writes to, of state \<open>'f\<close>. \<open>Buffer_from_other\<close> is \<open>Buffer.from\<close> on a value
  that is not a string (an array is copied, a number is refused). \<open>builtin_member v k\<close>
  is what the built-in prototype of a value \<open>v\<close> that is not an object literal (an array,
  a string, a number, a boolean) supplies under the name \<open>k\<close>.
\<close>

record ('r, 'f) modules =
  crypto :: "'r node_crypto"
  createVersionInfo :: "buffer \<Rightarrow> int \<Rightarrow> json"
  sha3_256 :: "string \<Rightarrow> string"
  sha3_256_undefined :: exn
  fs_ensureDir :: "string \<Rightarrow> 'f \<Rightarrow> exn + 'f"
  fs_writeFile :: "string \<Rightarrow> buffer \<Rightarrow> 'f \<Rightarrow> exn + 'f"
  Buffer_from_other :: "json \<Rightarrow> exn + buffer"
  builtin_member :: "json \<Rightarrow> string \<Rightarrow> member"

text \<open>The adapter's calls into the storage service, in order.\<close>

datatype call = CallUploadJson json string | CallGet string | CallIsPinned string | CallUnpin string

text \<open>
  Everything an operation can change: the storage backend and the calls made to it, the
  entropy source, the clock read by \<open>Date.now()\<close>, the target file system and the files
  written to it, in order.
\<close>

record ('s, 'r, 'f) world =
  store :: 's
  calls :: "call list"
  rng :: 'r
  time :: int
  disk :: 'f
  written :: "(string \<times> buffer) list"

definition delete ::
  "'s storage \<Rightarrow> string \<Rightarrow> ('s, 'r, 'f) world \<Rightarrow> (exn + bool) \<times> ('s, 'r, 'f) world" where
  "delete st hash w =
     (case unpin st of
        None \<Rightarrow> (Inl (Error ''Storage service does not support delete operation''), w)
      | Some unpin_fn \<Rightarrow>
          let (r1, s1) = isPinned st hash (store w);
              w1 = w\<lparr>store := s1, calls := calls w @ [CallIsPinned hash]\<rparr>
          in (case r1 of
                Inl e \<Rightarrow> (Inr False, w1)
              | Inr exists \<Rightarrow>
                  if \<not> exists then (Inr False, w1)
                  else
                    let (r2, s2) = unpin_fn hash (store w1);
                        w2 = w1\<lparr>store := s2, calls := calls w1 @ [CallUnpin hash]\<rparr>
                    in (case r2 of
                          Inl e \<Rightarrow> (Inr False, w2)
                        | Inr u \<Rightarrow> (Inr True, w2))))"

record BackupResult =
  hash :: string
  versionInfo :: json
  name :: string

text \<open>
  The version record and the payload \<open>{data, metadata}\<close> that \<open>backup\<close> makes of the
  snapshot at the current time.
\<close>

definition make_uploadData :: "('r, 'f) modules \<Rightarrow> (string \<times> json) list \<Rightarrow> int \<Rightarrow> json \<times> json" where
  "make_uploadData m snapshot now =
     (let versionInfo = createVersionInfo m (stringify (JObj snapshot)) now;
          metadata = JObj [(''timestamp'', JNum now),
                           (''type'', JStr ''file-backup''),
                           (''versionInfo'', versionInfo)];
          uploadData = JObj [(''data'', JObj snapshot), (''metadata'', metadata)]
      in (versionInfo, uploadData))"

definition backup ::
  "('r, 'f) modules \<Rightarrow> 's storage \<Rightarrow> string \<Rightarrow> fsnode \<Rightarrow> BackupOptions option \<Rightarrow>
   ('s, 'r, 'f) world \<Rightarrow> (exn + BackupResult) \<times> ('s, 'r, 'f) world" where
  "backup m st sourcePath root options w =
     (let (r, ws) = processDirectory (crypto m) sourcePath [] options root
                      \<lparr>backupData = [], entropy = rng w, routed = []\<rparr>;
          w1 = w\<lparr>rng := entropy ws\<rparr>
      in (case r of
            Inl e \<Rightarrow> (Inl e, w1)
          | Inr u \<Rightarrow>
              let (versionInfo, uploadData) = make_uploadData m (backupData ws) (time w1);
                  (r2, s2) = uploadJson st uploadData (path_basename sourcePath) (store w1);
                  w2 = w1\<lparr>store := s2,
                          calls := calls w1 @ [CallUploadJson uploadData (path_basename sourcePath)]\<rparr>
              in (case r2 of
                    Inl e \<Rightarrow> (Inl e, w2)
                  | Inr None \<Rightarrow> (Inl (Error ''Storage service did not return a valid hash''), w2)
                  | Inr (Some result) \<Rightarrow>
                      (case out_id result of
                         None \<Rightarrow> (Inl (Error ''Storage service did not return a valid hash''), w2)
                       | Some i \<Rightarrow>
                           if i = [] then
                             (Inl (Error ''Storage service did not return a valid hash''), w2)
                           else
                             (Inr \<lparr>hash = i, versionInfo = versionInfo,
                                   name = path_basename sourcePath\<rparr>, w2)))))"

text \<open>\<open>FileBackupAdapter.get\<close>\<close>

definition adapter_get ::
  "'s storage \<Rightarrow> string \<Rightarrow> ('s, 'r, 'f) world \<Rightarrow> (exn + json) \<times> ('s, 'r, 'f) world" where
  "adapter_get st h w =
     (case get st of
        None \<Rightarrow> (Inl (Error ''Storage service does not support get operation''), w)
      | Some get_fn \<Rightarrow>
          let (r, s1) = get_fn h (store w);
              w1 = w\<lparr>store := s1, calls := calls w @ [CallGet h]\<rparr>
          in (case r of
                Inl e \<Rightarrow> (Inl e, w1)
              | Inr None \<Rightarrow> (Inl (Error ''Invalid backup format''), w1)
              | Inr (Some result) \<Rightarrow>
                  if \<not> truthy (js_prop result ''data'') \<or> \<not> truthy (js_prop result ''metadata'')
                  then (Inl (Error ''Invalid backup format''), w1)
                  else (Inr result, w1)))"

text \<open>
  \<open>Buffer.from(v, 'base64')\<close> for a field \<open>v\<close> of a stored record: a string is decoded;
  for any other value the encoding is ignored.
\<close>

fun Buffer_from_base64 :: "('r, 'f) modules \<Rightarrow> json \<Rightarrow> exn + buffer" where
  "Buffer_from_base64 m (JStr s) = Inr (base64_decode s)"
| "Buffer_from_base64 m v = Buffer_from_other m v"

text \<open>
  The data argument of \<open>writeFile\<close> when it is a stored \<open>content\<close> field: a string is
  written as it is, and no other JSON value is a string, a \<open>Buffer\<close>, a typed array or a
  \<open>DataView\<close>.
\<close>

fun writeFile_data :: "json \<Rightarrow> exn + buffer" where
  "writeFile_data (JStr s) = Inr s"
| "writeFile_data v =
     Inl (Error ''The data argument must be of type string or an instance of Buffer'')"

definition restore_failure :: "string \<Rightarrow> exn \<Rightarrow> exn" where
  "restore_failure fileName e =
     Error (''Failed to restore file '' @ fileName @ '': '' @ error_text e)"

text \<open>\<open>fs.writeFile(filePath, data)\<close>, recording the file when the write succeeds.\<close>

definition write_to ::
  "('r, 'f) modules \<Rightarrow> string \<Rightarrow> buffer \<Rightarrow> ('s, 'r, 'f) world \<Rightarrow> (exn + unit) \<times> ('s, 'r, 'f) world" where
  "write_to m filePath bytes w =
     (case fs_writeFile m filePath bytes (disk w) of
        Inl e \<Rightarrow> (Inl e, w)
      | Inr d \<Rightarrow> (Inr (), w\<lparr>disk := d, written := written w @ [(filePath, bytes)]\<rparr>))"

text \<open>The body of the \<open>try\<close> block for one entry of \<open>backup.data\<close>.\<close>

definition restore_entry_body ::
  "('r, 'f) modules \<Rightarrow> Encryption option \<Rightarrow> string \<Rightarrow> string \<Rightarrow> json \<Rightarrow> ('s, 'r, 'f) world \<Rightarrow>
   (exn + unit) \<times> ('s, 'r, 'f) world" where
  "restore_entry_body m encryptor filePath fileName fileData w =
     (case fs_ensureDir m (path_dirname filePath) (disk w) of
        Inl e \<Rightarrow> (Inl e, w)
      | Inr d \<Rightarrow>
          let w1 = w\<lparr>disk := d\<rparr> in
          if fileData = JNull then
            (Inl (Error ''Cannot read properties of null (reading 'isEncrypted')''), w1)
          else if truthy (js_prop fileData ''isEncrypted'') \<and> encryptor \<noteq> None \<and>
                  truthy (js_prop fileData ''encrypted'') \<and> truthy (js_prop fileData ''iv'') then
            (case (encryptor, js_prop fileData ''encrypted'', js_prop fileData ''iv'') of
               (Some this, Some enc_field, Some iv_field) \<Rightarrow>
                 (case Buffer_from_base64 m enc_field of
                    Inl e \<Rightarrow> (Inl e, w1)
                  | Inr enc \<Rightarrow>
                      (case Buffer_from_base64 m iv_field of
                         Inl e \<Rightarrow> (Inl e, w1)
                       | Inr iv0 \<Rightarrow>
                           (case (if truthy (js_prop fileData ''authTag'')
                                  then (case js_prop fileData ''authTag'' of
                                          Some t \<Rightarrow> map_sum id Some (Buffer_from_base64 m t)
                                        | None \<Rightarrow> Inr None)
                                  else Inr None) of
                              Inl e \<Rightarrow> (Inl e, w1)
                            | Inr tag \<Rightarrow>
                                (case decrypt (crypto m) this enc iv0 tag of
                                   Inl e \<Rightarrow> (Inl e, w1)
                                 | Inr decrypted \<Rightarrow> write_to m filePath decrypted w1))))
             | _ \<Rightarrow> (Inl (Error (''Invalid file data for '' @ fileName)), w1))
          else if js_prop fileData ''type'' = Some (JStr ''binary'') \<and>
                  truthy (js_prop fileData ''content'') then
            (case js_prop fileData ''content'' of
               Some c \<Rightarrow>
                 (case Buffer_from_base64 m c of
                    Inl e \<Rightarrow> (Inl e, w1)
                  | Inr content \<Rightarrow> write_to m filePath content w1)
             | None \<Rightarrow> (Inl (Error (''Invalid file data for '' @ fileName)), w1))
          else if js_prop fileData ''type'' = Some (JStr ''text'') \<and>
                  truthy (js_prop fileData ''content'') then
            (case js_prop fileData ''content'' of
               Some c \<Rightarrow>
                 (case writeFile_data c of
                    Inl e \<Rightarrow> (Inl e, w1)
                  | Inr content \<Rightarrow> write_to m filePath content w1)
             | None \<Rightarrow> (Inl (Error (''Invalid file data for '' @ fileName)), w1))
          else (Inl (Error (''Invalid file data for '' @ fileName)), w1))"

text \<open>The loop over \<open>Object.entries(backup.data)\<close>; the first failure ends it.\<close>

fun restore_entries ::
  "('r, 'f) modules \<Rightarrow> Encryption option \<Rightarrow> string \<Rightarrow> (string \<times> json) list \<Rightarrow>
   ('s, 'r, 'f) world \<Rightarrow> (exn + unit) \<times> ('s, 'r, 'f) world" where
  "restore_entries m encryptor targetPath [] w = (Inr (), w)"
| "restore_entries m encryptor targetPath ((fileName, fileData) # rest) w =
     (case restore_entry_body m encryptor (path_join targetPath fileName) fileName fileData w of
        (Inl e, w') \<Rightarrow> (Inl (restore_failure fileName e), w')
      | (Inr u, w') \<Rightarrow> restore_entries m encryptor targetPath rest w')"

text \<open>
  \<open>options?.encryption?.enabled && options.encryption.key ? new Encryption(...) : null\<close>
\<close>

definition restore_encryption :: "('r, 'f) modules \<Rightarrow> BackupOptions option \<Rightarrow> Encryption option" where
  "restore_encryption m options =
     (case encryption_requested options of
        Some eo \<Rightarrow> Some (new_Encryption (crypto m) (key eo) (algorithm eo))
      | None \<Rightarrow> None)"

definition restore ::
  "('r, 'f) modules \<Rightarrow> 's storage \<Rightarrow> string \<Rightarrow> string \<Rightarrow> BackupOptions option \<Rightarrow>
   ('s, 'r, 'f) world \<Rightarrow> (exn + bool) \<times> ('s, 'r, 'f) world" where
  "restore m st h targetPath options w =
     (case adapter_get st h w of
        (Inl e, w1) \<Rightarrow> (Inl e, w1)
      | (Inr backup_json, w1) \<Rightarrow>
          (case js_prop backup_json ''data'' of
             None \<Rightarrow> (Inl (Error ''Invalid backup data''), w1)
           | Some data \<Rightarrow>
               if \<not> truthy (Some data) then (Inl (Error ''Invalid backup data''), w1)
               else
                 let encryptor = restore_encryption m options
                 in (case fs_ensureDir m targetPath (disk w1) of
                       Inl e \<Rightarrow> (Inl e, w1)
                     | Inr d \<Rightarrow>
                         (case restore_entries m encryptor targetPath (entries data)
                                 (w1\<lparr>disk := d\<rparr>) of
                            (Inl e, w2) \<Rightarrow> (Inl e, w2)
                          | (Inr u, w2) \<Rightarrow> (Inr True, w2)))))"

subsection \<open>What restore makes of a snapshot\<close>



subsection \<open>compareDetailed\<close>

datatype change = Added | Modified | Deleted

record difference =
  path :: string
  change_type :: change
  oldChecksum :: "string option"
  newChecksum :: "string option"
  size_old :: "nat option"
  size_new :: "nat option"

record change_counts =
  added :: nat
  modified :: nat
  deleted :: nat

text \<open>
  The result. \<open>isNewer\<close>, \<open>timeDiff\<close> and \<open>formattedDiff\<close>, which compare the timestamps
  of the two version records, are left out; the failure of reading
  \<open>remoteVersion.timestamp\<close> when there is no remote version record is kept.
\<close>

record DetailedComparison =
  isEqual :: bool
  localVersion :: json
  remoteVersion :: json
  differences :: "difference list"
  totalChanges :: change_counts

text \<open>
  \<open>localData\<close>, the object that the first loop fills: its own properties, and the record
  that an assignment to \<open>__proto__\<close> has made its prototype, if any.
\<close>

record local_object =
  own :: "(string \<times> json) list"
  proto :: "json option"

text \<open>
  The first loop: the entries of \<open>sourcePath\<close> that are not directories, read and keyed
  by their names.
\<close>

fun read_local :: "(string \<times> fsnode) list \<Rightarrow> local_object \<Rightarrow> exn + local_object" where
  "read_local [] localData = Inr localData"
| "read_local ((file, node) # files) localData =
     (case node of
        Dir sub \<Rightarrow> read_local files localData
      | _ \<Rightarrow>
          (case readFile node of
             Inl e \<Rightarrow> Inl e
           | Inr content \<Rightarrow>
               let fileData =
                     JObj [(''type'', JStr (if isBinaryFile file then ''binary'' else ''text'')),
                           (''content'', JStr (base64_encode content))]
               in read_local files
                    \<lparr>own = js_set (own localData) file fileData,
                     proto = (if file = ''__proto__'' then Some fileData else proto localData)\<rparr>))"

definition calculateChecksum :: "('r, 'f) modules \<Rightarrow> json \<Rightarrow> string" where
  "calculateChecksum m data = sha3_256 m (stringify data)"

definition getFileSize :: "json \<Rightarrow> nat" where
  "getFileSize data = length (stringify data)"

text \<open>
  \<open>backup.data[filePath]\<close>: an own property of the fetched value, or what its prototype
  supplies.
\<close>

definition remote_member :: "('r, 'f) modules \<Rightarrow> json \<Rightarrow> string \<Rightarrow> member" where
  "remote_member m data k =
     (case js_prop data k of
        Some v \<Rightarrow> Value v
      | None \<Rightarrow> (case data of JObj kvs \<Rightarrow> Object_prototype_member k | _ \<Rightarrow> builtin_member m data k))"

text \<open>
  \<open>localData[filePath]\<close>: an own property, or a property of the record that has become
  the prototype (\<open>__proto__\<close> yields that record itself), or a member of
  \<open>Object.prototype\<close>.
\<close>

definition local_member :: "local_object \<Rightarrow> string \<Rightarrow> member" where
  "local_member localData k =
     (case map_of (own localData) k of
        Some v \<Rightarrow> Value v
      | None \<Rightarrow>
          (case proto localData of
             None \<Rightarrow> Object_prototype_member k
           | Some p \<Rightarrow>
               if k = ''__proto__'' then Value p
               else (case js_prop p k of
                       Some v \<Rightarrow> Value v
                     | None \<Rightarrow> Object_prototype_member k)))"

text \<open>
  The loop over \<open>Object.entries(localData)\<close>: added and modified files. When the lookup
  in \<open>backup.data\<close> finds a built-in function, \<open>JSON.stringify\<close> of it is \<open>undefined\<close> and
  \<open>sha3_256\<close> throws.
\<close>

fun compare_local ::
  "('r, 'f) modules \<Rightarrow> json \<Rightarrow> (string \<times> json) list \<Rightarrow> difference list \<times> change_counts \<Rightarrow>
   exn + difference list \<times> change_counts" where
  "compare_local m remoteData [] acc = Inr acc"
| "compare_local m remoteData ((filePath, localContent) # rest) (diffs, totals) =
     (if \<not> member_truthy (remote_member m remoteData filePath) then
        compare_local m remoteData rest
          (diffs @ [\<lparr>path = filePath, change_type = Added, oldChecksum = None,
                     newChecksum = Some (calculateChecksum m localContent),
                     size_old = None, size_new = Some (getFileSize localContent)\<rparr>],
           totals\<lparr>added := added totals + 1\<rparr>)
      else
        (case remote_member m remoteData filePath of
           Value remoteContent \<Rightarrow>
             let localChecksum = calculateChecksum m localContent;
                 remoteChecksum = calculateChecksum m remoteContent
             in if localChecksum \<noteq> remoteChecksum then
                  compare_local m remoteData rest
                    (diffs @ [\<lparr>path = filePath, change_type = Modified,
                               oldChecksum = Some remoteChecksum, newChecksum = Some localChecksum,
                               size_old = Some (getFileSize remoteContent),
                               size_new = Some (getFileSize localContent)\<rparr>],
                     totals\<lparr>modified := modified totals + 1\<rparr>)
                else compare_local m remoteData rest (diffs, totals)
         | _ \<Rightarrow> Inl (sha3_256_undefined m)))"

text \<open>
  The loop over \<open>Object.keys(backup.data)\<close>: deleted files. A stored value that
  \<open>JSON.stringify\<close> maps to a string is any JSON value.
\<close>

fun compare_remote ::
  "('r, 'f) modules \<Rightarrow> local_object \<Rightarrow> (string \<times> json) list \<Rightarrow>
   difference list \<times> change_counts \<Rightarrow> difference list \<times> change_counts" where
  "compare_remote m localData [] acc = acc"
| "compare_remote m localData ((filePath, remoteContent) # rest) (diffs, totals) =
     (if \<not> member_truthy (local_member localData filePath) then
        compare_remote m localData rest
          (diffs @ [\<lparr>path = filePath, change_type = Deleted,
                     oldChecksum = Some (calculateChecksum m remoteContent), newChecksum = None,
                     size_old = Some (getFileSize remoteContent), size_new = None\<rparr>],
           totals\<lparr>deleted := deleted totals + 1\<rparr>)
      else compare_remote m localData rest (diffs, totals))"

definition compareDetailed ::
  "('r, 'f) modules \<Rightarrow> 's storage \<Rightarrow> string \<Rightarrow> string \<Rightarrow> fsnode \<Rightarrow> ('s, 'r, 'f) world \<Rightarrow>
   (exn + DetailedComparison) \<times> ('s, 'r, 'f) world" where
  "compareDetailed m st h sourcePath root w =
     (case root of
        Dir files \<Rightarrow>
          (case read_local files \<lparr>own = [], proto = None\<rparr> of
             Inl e \<Rightarrow> (Inl e, w)
           | Inr localData \<Rightarrow>
               (case adapter_get st h w of
                  (Inl e, w1) \<Rightarrow> (Inl e, w1)
                | (Inr backup_json, w1) \<Rightarrow>
                    (case js_prop backup_json ''data'' of
                       None \<Rightarrow> (Inl (Error ''Invalid backup: missing data''), w1)
                     | Some data \<Rightarrow>
                         if \<not> truthy (Some data) then
                           (Inl (Error ''Invalid backup: missing data''), w1)
                         else
                           (case compare_local m data (own localData)
                                   ([], \<lparr>added = 0, modified = 0, deleted = 0\<rparr>) of
                              Inl e \<Rightarrow> (Inl e, w1)
                            | Inr (diffs1, total1) \<Rightarrow>
                                let (diffs2, total2) =
                                      compare_remote m localData (entries data) (diffs1, total1);
                                    localVersion0 =
                                      createVersionInfo m (stringify (JObj (own localData)))
                                        (time w1);
                                    remoteVersion0 =
                                      opt_prop (js_prop backup_json ''metadata'') ''versionInfo''
                                in (case remoteVersion0 of
                                      None \<Rightarrow>
                                        (Inl (Error
                                           ''Cannot read properties of undefined (reading 'timestamp')''),
                                         w1)
                                    | Some rv \<Rightarrow>
                                        if rv = JNull then
                                          (Inl (Error
                                             ''Cannot read properties of null (reading 'timestamp')''),
                                           w1)
                                        else
                                          (Inr \<lparr>isEqual = (length diffs2 = 0),
                                                localVersion = localVersion0,
                                                remoteVersion = rv,
                                                differences = diffs2,
                                                totalChanges = total2\<rparr>, w1))))))
      | _ \<Rightarrow> (Inl (Error (''ENOTDIR: not a directory, scandir '' @ sourcePath)), w))"

text \<open>The tallies agree with the list of differences.\<close>

definition counted :: "difference list \<times> change_counts \<Rightarrow> bool" where
  "counted acc =
     (added (snd acc) = length (filter (\<lambda>d. change_type d = Added) (fst acc)) \<and>
      modified (snd acc) = length (filter (\<lambda>d. change_type d = Modified) (fst acc)) \<and>
      deleted (snd acc) = length (filter (\<lambda>d. change_type d = Deleted) (fst acc)))"

section \<open>The files of a tree and the round trip\<close>

text \<open>
  The regular files the walk meets below a directory, in walk order: the full path, the
  snapshot key (the relative path, joined with \<open>/\<close>) and the content of each.
\<close>

fun tree_files :: "string \<Rightarrow> string \<Rightarrow> (string \<times> fsnode) list \<Rightarrow> (string \<times> string \<times> buffer) list" where
  "tree_files dirPath baseDir [] = []"
| "tree_files dirPath baseDir ((entry, node) # rest) =
     (case node of
        Dir sub \<Rightarrow>
          tree_files (path_join dirPath entry) (backslashes_to_slashes (path_join baseDir entry)) sub
      | File content \<Rightarrow>
          [(path_join dirPath entry, backslashes_to_slashes (path_join baseDir entry), content)]
      | Unreadable n msg \<Rightarrow> []) @
     tree_files dirPath baseDir rest"


text \<open>
  A tree as a POSIX file system holds it, whose names moreover have no backslash: a name
  is not empty, is neither \<open>.\<close> nor \<open>..\<close>, contains neither a slash nor a backslash, and occurs once in
  its directory.
\<close>

definition ordinary_name :: "string \<Rightarrow> bool" where
  "ordinary_name n =
     (n \<noteq> [] \<and> n \<noteq> ''.'' \<and> n \<noteq> ''..'' \<and> CHR ''/'' \<notin> set n \<and> CHR 0x5C \<notin> set n)"




text \<open>A directory with one empty file.\<close>

definition empty_file_tree :: fsnode where
  "empty_file_tree = Dir [(''a.txt'', File [])]"


section \<open>Stand-ins for the collaborators\<close>

text \<open>
  A storage service that keeps every uploaded payload under a fresh id and hands it back
  unchanged, as a content store does after serialising and parsing the JSON.
\<close>

definition memory_storage :: "(string \<times> json) list storage" where
  "memory_storage =
     \<lparr>uploadJson = (\<lambda>payload pinName s.
        (Inr (Some \<lparr>out_id = Some (''cid-'' @ show_nat (length s))\<rparr>),
         s @ [(''cid-'' @ show_nat (length s), payload)])),
      get = Some (\<lambda>h s.
        (case map_of s h of None \<Rightarrow> Inl (Error ''NOT_FOUND'') | Some p \<Rightarrow> Inr (Some p), s)),
      isPinned = (\<lambda>h s. (Inr (map_of s h \<noteq> None), s)),
      unpin = Some (\<lambda>h s. (Inr True, filter (\<lambda>kv. fst kv \<noteq> h) s))\<rparr>"

text \<open>
  A stand-in for \<open>crypto\<close> with the shape of an AEAD cipher whose ciphertext is as long as
  the plaintext (as in GCM): the key is the passphrase itself, the ciphertext the
  reversed plaintext, the tag the key; deciphering checks the tag against the key.
\<close>

definition toy_crypto :: "unit node_crypto" where
  "toy_crypto =
     \<lparr>sha256 = (\<lambda>passphrase. passphrase),
      randomBytes = (\<lambda>n g. (replicate n (CHR ''i''), g)),
      cipher_run = (\<lambda>alg k iv0 data. Inr (rev data, k)),
      decipher_run = (\<lambda>alg k iv0 tag data.
        if tag = Some k then Inr (rev data)
        else Inl (Error ''Unsupported state or unable to authenticate data''))\<rparr>"

text \<open>
  Modules for concrete runs: the cipher above, the identity as digest, a version record
  holding only the time, a target file system that accepts every operation, a
  \<open>Buffer.from\<close> that refuses whatever is not a string, and no built-in members of values
  other than object literals.
\<close>

definition toy_modules :: "(unit, unit) modules" where
  "toy_modules =
     \<lparr>crypto = toy_crypto,
      createVersionInfo = (\<lambda>bytes now. JObj [(''timestamp'', JNum now)]),
      sha3_256 = (\<lambda>s. s),
      sha3_256_undefined = Error ''input is invalid type'',
      fs_ensureDir = (\<lambda>p d. Inr d),
      fs_writeFile = (\<lambda>p bytes d. Inr d),
      Buffer_from_other = (\<lambda>v. Inl (Error ''The first argument must be of type string'')),
      builtin_member = (\<lambda>v k. Absent)\<rparr>"

definition fresh_world :: "((string \<times> json) list, unit, unit) world" where
  "fresh_world = \<lparr>store = [], calls = [], rng = (), time = 1700000000000, disk = (), written = []\<rparr>"

definition pinned_world :: "((string \<times> json) list, unit, unit) world" where
  "pinned_world = fresh_world\<lparr>store := [(''cid-0'', JObj [])]\<rparr>"

text \<open>
  A Pinata backend that refuses the token: every request throws the SDK's
  authentication error. And a service state, a well-formed CID and a world to run on.
\<close>

definition rejecting_sdk :: "unit pinata_sdk" where
  "rejecting_sdk =
     \<lparr>gateways_get = (\<lambda>h b. (Inl (Error ''Authentication failed: INVALID_CREDENTIALS''), b)),
      sdk_unpin = (\<lambda>hs b. (Inl (Error ''Authentication failed: INVALID_CREDENTIALS''), b)),
      upload_json = (\<lambda>payload pinName b.
        (Inl (Error ''Authentication failed: INVALID_CREDENTIALS''), b))\<rparr>"

definition pinata_start :: "unit pinata_state" where
  "pinata_start = \<lparr>remote = (), clock = 1000, lastRequestTime = 0, requests = []\<rparr>"

definition sample_cid :: string where
  "sample_cid = ''QmYwAPJzv5CZsnA625s3Xf2nemtYgPpHdWEz79ojWnPbdG''"

definition pinata_world :: "(unit pinata_state, unit, unit) world" where
  "pinata_world =
     \<lparr>store = pinata_start, calls = [], rng = (), time = 1700000000000, disk = (), written = []\<rparr>"

text \<open>Two small directory trees, and options that ask for encryption under a passphrase.\<close>

definition hello_tree :: fsnode where
  "hello_tree = Dir [(''a.txt'', File ''hello'')]"


definition encrypting :: "string \<Rightarrow> BackupOptions option" where
  "encrypting passphrase =
     Some \<lparr>excludePatterns = None, maxFileSize = None,
           encryption = Some \<lparr>enabled = True, key = passphrase,
                               algorithm = Some ''aes-256-gcm''\<rparr>\<rparr>"

text \<open>
  The snapshot of \<open>hello_tree\<close>, the payload \<open>backup\<close> uploads for it, and the world after
  that backup into the memory storage.
\<close>

definition hello_record :: json where
  "hello_record =
     JObj [(''type'', JStr ''text''), (''content'', JStr ''hello''),
           (''mimeType'', JStr ''application/octet-stream'')]"

definition hello_snapshot :: "(string \<times> json) list" where
  "hello_snapshot = [(''a.txt'', hello_record)]"

text \<open>The record \<open>compareDetailed\<close> makes of the same file when it reads the directory.\<close>

definition hello_local_record :: json where
  "hello_local_record = JObj [(''type'', JStr ''text''), (''content'', JStr ''aGVsbG8='')]"

definition hello_payload :: json where
  "hello_payload =
     JObj [(''data'', JObj hello_snapshot),
           (''metadata'', JObj [(''timestamp'', JNum 1700000000000),
                               (''type'', JStr ''file-backup''),
                               (''versionInfo'', JObj [(''timestamp'', JNum 1700000000000)])])]"

definition hello_world :: "((string \<times> json) list, unit, unit) world" where
  "hello_world =
     \<lparr>store = [(''cid-0'', hello_payload)], calls = [CallUploadJson hello_payload ''src''],
      rng = (), time = 1700000000000, disk = (), written = []\<rparr>"



section \<open>Properties of the pin operations and of delete\<close>

lemma sample_cid_ok: "sample_cid \<noteq> [] \<and> CID_PATTERN_test sample_cid"
  by (simp add: sample_cid_def CID_PATTERN_test_def base58_char_def)

lemma not_a_cid: "\<not> CID_PATTERN_test ''not-a-cid''"
  by (simp add: CID_PATTERN_test_def alnum_char_def base58_char_def)

lemma rejecting_isPinned:
  "fst (PinataService_isPinned rejecting_sdk sample_cid pinata_start) = Inl authError"
  using sample_cid_ok
  by (simp add: PinataService_isPinned_def rejecting_sdk_def Let_def)

lemma delete_outcome:
  assumes "unpin st = Some unpin_fn"
  shows "(fst (delete st h w) = Inr True \<or> fst (delete st h w) = Inr False) \<and>
         (fst (delete st h w) = Inr True \<longleftrightarrow>
            (\<exists>s1 b s2. isPinned st h (store w) = (Inr True, s1) \<and> unpin_fn h s1 = (Inr b, s2)))"
  using assms
  by (auto simp: delete_def Let_def split: prod.splits sum.splits)

text \<open>
  C10. For a hash that is empty or does not match the CID pattern,
  \<open>PinataService.isPinned\<close> and \<open>PinataService.unpin\<close> return \<open>false\<close> at once: the
  service state, and with it the backend state, the rate limiter and the list of
  requests issued, is the one they were called in.
\<close>

theorem invalid_cid_no_request:
  assumes "h = [] \<or> \<not> CID_PATTERN_test h"
  shows "PinataService_isPinned sdk h s = (Inr False, s) \<and>
         PinataService_unpin sdk h s = (Inr False, s)"
  using assms by (auto simp: PinataService_isPinned_def PinataService_unpin_def)

theorem invalid_cid_no_request_witness:
  "(''not-a-cid'' = [] \<or> \<not> CID_PATTERN_test ''not-a-cid'') \<and>
   PinataService_isPinned rejecting_sdk ''not-a-cid'' pinata_start = (Inr False, pinata_start) \<and>
   PinataService_unpin rejecting_sdk ''not-a-cid'' pinata_start = (Inr False, pinata_start)"
  using invalid_cid_no_request [of "''not-a-cid''" rejecting_sdk pinata_start] not_a_cid by simp

text \<open>
  C3. With a storage service that supports \<open>unpin\<close>: when \<open>isPinned(h)\<close> returns \<open>false\<close>,
  \<open>delete(h)\<close> returns \<open>false\<close> and the only call made to the service is that
  \<open>isPinned\<close>; when \<open>isPinned(h)\<close> returns \<open>true\<close> and \<open>unpin(h)\<close> then returns without
  throwing, \<open>delete(h)\<close> has called \<open>unpin(h)\<close> after it and returns \<open>true\<close>.
\<close>

theorem delete_checks_pin_first:
  assumes "unpin st = Some unpin_fn"
  shows "(isPinned st h (store w) = (Inr False, s1) \<longrightarrow>
            delete st h w = (Inr False, w\<lparr>store := s1, calls := calls w @ [CallIsPinned h]\<rparr>)) \<and>
         (isPinned st h' (store w') = (Inr True, s1') \<and> unpin_fn h' s1' = (Inr b, s2) \<longrightarrow>
            delete st h' w' =
              (Inr True, w'\<lparr>store := s2, calls := calls w' @ [CallIsPinned h', CallUnpin h']\<rparr>))"
  using assms by (auto simp: delete_def Let_def)

theorem delete_checks_pin_first_witness:
  "unpin memory_storage = Some (the (unpin memory_storage)) \<and>
   isPinned memory_storage ''cid-1'' (store pinned_world) = (Inr False, store pinned_world) \<and>
   delete memory_storage ''cid-1'' pinned_world =
     (Inr False, pinned_world\<lparr>calls := [CallIsPinned ''cid-1'']\<rparr>) \<and>
   isPinned memory_storage ''cid-0'' (store pinned_world) = (Inr True, store pinned_world) \<and>
   the (unpin memory_storage) ''cid-0'' (store pinned_world) = (Inr True, []) \<and>
   delete memory_storage ''cid-0'' pinned_world =
     (Inr True, pinned_world\<lparr>store := [], calls := [CallIsPinned ''cid-0'', CallUnpin ''cid-0'']\<rparr>)"
proof -
  have u: "unpin memory_storage = Some (the (unpin memory_storage))"
    by (simp add: memory_storage_def)
  have a: "isPinned memory_storage ''cid-1'' (store pinned_world) = (Inr False, store pinned_world)"
    by (simp add: memory_storage_def pinned_world_def fresh_world_def)
  have b: "isPinned memory_storage ''cid-0'' (store pinned_world) = (Inr True, store pinned_world)"
    by (simp add: memory_storage_def pinned_world_def fresh_world_def)
  have c: "the (unpin memory_storage) ''cid-0'' (store pinned_world) = (Inr True, [])"
    by (simp add: memory_storage_def pinned_world_def fresh_world_def)
  have k: "calls pinned_world = []"
    by (simp add: pinned_world_def fresh_world_def)
  show ?thesis
    using delete_checks_pin_first [OF u, of "''cid-1''" pinned_world "store pinned_world"
        "''cid-0''" pinned_world "store pinned_world" True "[]"] u a b c k
    by simp
qed

text \<open>
  C4, as stated, fails for \<open>delete\<close>: with a Pinata backend that rejects the token the
  pin-status check raises the authentication error, and \<open>delete\<close> on that service
  returns \<open>false\<close>.
\<close>

theorem delete_swallows_auth_error:
  "fst (PinataService_isPinned rejecting_sdk sample_cid pinata_start) = Inl authError \<and>
   fst (delete (PinataService rejecting_sdk) sample_cid pinata_world) = Inr False"
  using rejecting_isPinned
  by (cases "PinataService_isPinned rejecting_sdk sample_cid pinata_start")
     (simp add: delete_def PinataService_def pinata_world_def Let_def)

text \<open>
  C4, amended. When the gateway request of \<open>PinataService.isPinned\<close> throws, the check
  raises the authentication error if the thrown error names \<open>INVALID_CREDENTIALS\<close> (and
  is not a not-found error), and returns \<open>false\<close> for every other thrown value.
  \<open>FileBackupAdapter.delete\<close> never passes a failure on: it returns \<open>true\<close> exactly when
  \<open>isPinned\<close> returned \<open>true\<close> and \<open>unpin\<close> returned without throwing, and \<open>false\<close> in
  every other case, authentication errors included.
\<close>

theorem pin_check_reraises_auth_delete_returns_false:
  assumes "h \<noteq> []" and "CID_PATTERN_test h"
    and "gateways_get sdk h (remote (enforceRateLimit s)) = (Inl e, b)"
    and "unpin st = Some unpin_fn"
  shows "fst (PinataService_isPinned sdk h s) =
           (if is_invalid_credentials e \<and> \<not> is_not_found_isPinned e then Inl authError
            else Inr False) \<and>
         (fst (delete st h' w) = Inr True \<or> fst (delete st h' w) = Inr False) \<and>
         (fst (delete st h' w) = Inr True \<longleftrightarrow>
            (\<exists>s1 b' s2. isPinned st h' (store w) = (Inr True, s1) \<and>
                         unpin_fn h' s1 = (Inr b', s2)))"
proof -
  have "fst (PinataService_isPinned sdk h s) =
           (if is_invalid_credentials e \<and> \<not> is_not_found_isPinned e then Inl authError
            else Inr False)"
    using assms(1-3) by (auto simp: PinataService_isPinned_def Let_def)
  then show ?thesis using delete_outcome [OF assms(4)] by blast
qed

theorem pin_check_reraises_auth_delete_returns_false_witness:
  "sample_cid \<noteq> [] \<and> CID_PATTERN_test sample_cid \<and>
   gateways_get rejecting_sdk sample_cid (remote (enforceRateLimit pinata_start)) =
     (Inl (Error ''Authentication failed: INVALID_CREDENTIALS''), ()) \<and>
   unpin (PinataService rejecting_sdk) = Some (PinataService_unpin rejecting_sdk) \<and>
   fst (PinataService_isPinned rejecting_sdk sample_cid pinata_start) = Inl authError \<and>
   fst (delete (PinataService rejecting_sdk) sample_cid pinata_world) = Inr False"
proof -
  have g: "gateways_get rejecting_sdk sample_cid (remote (enforceRateLimit pinata_start)) =
     (Inl (Error ''Authentication failed: INVALID_CREDENTIALS''), ())"
    by (simp add: rejecting_sdk_def)
  have u: "unpin (PinataService rejecting_sdk) = Some (PinataService_unpin rejecting_sdk)"
    by (simp add: PinataService_def)
  have c: "sample_cid \<noteq> []" "CID_PATTERN_test sample_cid"
    using sample_cid_ok by simp_all
  note t = pin_check_reraises_auth_delete_returns_false [OF c g u, of sample_cid pinata_world]
  have p: "fst (isPinned (PinataService rejecting_sdk) sample_cid (store pinata_world)) =
             Inl authError"
    using rejecting_isPinned by (simp add: PinataService_def pinata_world_def)
  have "fst (delete (PinataService rejecting_sdk) sample_cid pinata_world) \<noteq> Inr True"
    using t p by auto
  then show ?thesis using t g u c by auto
qed

section \<open>Assignments to objects\<close>

lemma js_set_empty [simp]: "k \<noteq> ''__proto__'' \<Longrightarrow> js_set [] k v = [(k, v)]"
  by (simp add: js_set_def split: option.splits)

lemma js_set_proto [simp]: "js_set kvs ''__proto__'' v = kvs"
  by (simp add: js_set_def)

lemma js_set_fresh:
  assumes "k \<noteq> ''__proto__''" and "k \<notin> fst ` set kvs"
  shows "\<exists>xs ys. kvs = xs @ ys \<and> js_set kvs k v = xs @ (k, v) # ys"
proof (cases "array_index k")
  case None
  with assms have "js_set kvs k v = kvs @ (k, v) # []" by (simp add: js_set_def)
  then show ?thesis by (intro exI [of _ kvs] exI [of _ "[]"]) simp
next
  case (Some n)
  with assms have "js_set kvs k v =
      takeWhile (index_below n) kvs @ (k, v) # dropWhile (index_below n) kvs"
    by (simp add: js_set_def)
  then show ?thesis
    by (intro exI [of _ "takeWhile (index_below n) kvs"]
        exI [of _ "dropWhile (index_below n) kvs"]) simp
qed

lemma js_set_replace:
  assumes "k \<noteq> ''__proto__''" and "k \<in> fst ` set kvs"
  shows "js_set kvs k v = map (\<lambda>kv. if fst kv = k then (k, v) else kv) kvs"
  using assms by (simp add: js_set_def)

lemma replace_keys: "map fst (map (\<lambda>kv. if fst kv = k then (k, v) else kv) kvs) = map fst kvs"
  by (induction kvs) auto

lemma js_set_keys:
  "fst ` set (js_set kvs k v) =
     (if k = ''__proto__'' then fst ` set kvs else insert k (fst ` set kvs))"
proof (cases "k = ''__proto__''")
  case True
  then show ?thesis by simp
next
  case np: False
  show ?thesis
  proof (cases "k \<in> fst ` set kvs")
    case True
    have "fst ` set (js_set kvs k v) = set (map fst (js_set kvs k v))" by simp
    also have "\<dots> = set (map fst kvs)"
      unfolding js_set_replace [OF np True] replace_keys ..
    finally show ?thesis using np True by auto
  next
    case False
    from js_set_fresh [OF np False, of v] obtain xs ys where
      "kvs = xs @ ys" "js_set kvs k v = xs @ (k, v) # ys" by blast
    then show ?thesis using np by auto
  qed
qed

lemma js_set_distinct: "distinct (map fst kvs) \<Longrightarrow> distinct (map fst (js_set kvs k v))"
proof (cases "k = ''__proto__''")
  case True
  then show "distinct (map fst kvs) \<Longrightarrow> distinct (map fst (js_set kvs k v))" by simp
next
  case np: False
  assume d: "distinct (map fst kvs)"
  show "distinct (map fst (js_set kvs k v))"
  proof (cases "k \<in> fst ` set kvs")
    case True
    show ?thesis
      unfolding js_set_replace [OF np True] replace_keys by (rule d)
  next
    case False
    from js_set_fresh [OF np False, of v] obtain xs ys where
      s: "kvs = xs @ ys" "js_set kvs k v = xs @ (k, v) # ys" by blast
    with d False show ?thesis by auto
  qed
qed

lemma js_set_values:
  assumes "kv \<in> set (js_set kvs k v)"
  shows "kv \<in> set kvs \<or> snd kv = v"
proof (cases "k = ''__proto__''")
  case True
  with assms show ?thesis by simp
next
  case np: False
  show ?thesis
  proof (cases "k \<in> fst ` set kvs")
    case True
    from assms show ?thesis
      unfolding js_set_replace [OF np True] by auto
  next
    case False
    from js_set_fresh [OF np False, of v] obtain xs ys where
      "kvs = xs @ ys" "js_set kvs k v = xs @ (k, v) # ys" by blast
    with assms show ?thesis by auto
  qed
qed

section \<open>Concrete runs\<close>

lemma none_options:
  "excluded None n = False" "over_maxFileSize None k = False" "encryption_requested None = None"
  by (simp_all add: excluded_def over_maxFileSize_def encryption_requested_def)

lemma join_src_a: "path_join ''src'' ''a.txt'' = ''src/a.txt''"
  by (simp add: path_join_def path_normalize_def)

lemma join_empty_a: "path_join [] ''a.txt'' = ''a.txt''"
  by (simp add: path_join_def path_normalize_def)

lemma slashes_a: "backslashes_to_slashes ''a.txt'' = ''a.txt''"
  by (simp add: backslashes_to_slashes_def)

lemma extname_src_a: "path_extname ''src/a.txt'' = ''.txt''"
  by (simp add: path_extname_def path_basename_def strip_trailing_slashes_def Let_def)

lemma extname_a: "path_extname ''a.txt'' = ''.txt''"
  by (simp add: path_extname_def path_basename_def strip_trailing_slashes_def Let_def)

lemma lower_txt: "toLowerCase ''.txt'' = ''.txt''"
  by (simp add: toLowerCase_def lower_char_def)

lemma text_src_a: "isBinaryFile ''src/a.txt'' = False" "isBinaryFile ''a.txt'' = False"
  by (simp_all add: isBinaryFile_def extname_src_a extname_a lower_txt)

lemma mime_src_a: "getMimeType ''src/a.txt'' = ''application/octet-stream''"
  by (simp add: getMimeType_def extname_src_a lower_txt)

lemma utf8_hello: "utf8_toString ''hello'' = ''hello''"
  by (simp add: utf8_toString_def utf8_first_def)

lemma basename_src: "path_basename ''src'' = ''src''"
  by (simp add: path_basename_def strip_trailing_slashes_def)

lemma walk_hello:
  "processDirectory lib ''src'' [] None hello_tree
     \<lparr>backupData = [], entropy = g, routed = []\<rparr> =
   (Inr (), \<lparr>backupData = hello_snapshot, entropy = g, routed = [(''a.txt'', SingleShot)]\<rparr>)"
  by (simp add: hello_tree_def hello_snapshot_def hello_record_def none_options join_src_a
      join_empty_a slashes_a processSmallFile_def text_src_a mime_src_a utf8_hello Let_def)

lemma payload_hello:
  "make_uploadData toy_modules hello_snapshot 1700000000000 =
     (JObj [(''timestamp'', JNum 1700000000000)], hello_payload)"
  by (simp add: make_uploadData_def toy_modules_def hello_payload_def Let_def)

lemma backup_hello:
  "backup toy_modules memory_storage ''src'' hello_tree None fresh_world =
     (Inr \<lparr>hash = ''cid-0'', versionInfo = JObj [(''timestamp'', JNum 1700000000000)],
           name = ''src''\<rparr>, hello_world)"
  by (simp add: backup_def fresh_world_def hello_world_def walk_hello payload_hello basename_src
      memory_storage_def)

lemma get_hello:
  "adapter_get memory_storage ''cid-0'' hello_world =
     (Inr hello_payload, hello_world\<lparr>calls := calls hello_world @ [CallGet ''cid-0'']\<rparr>)"
  by (simp add: adapter_get_def memory_storage_def hello_world_def hello_payload_def js_prop_def)

lemma join_out_a: "path_join ''out'' ''a.txt'' = ''out/a.txt''"
  by (simp add: path_join_def path_normalize_def)


lemma toy_fs_eq:
  "fs_ensureDir toy_modules p d = Inr d" "fs_writeFile toy_modules p b d = Inr d"
  by (simp_all add: toy_modules_def)


section \<open>Properties of backup\<close>

text \<open>
  C6. When the walk over \<open>sourcePath\<close> has succeeded, \<open>backup\<close> hands the payload to
  \<open>uploadJson\<close> and its outcome follows the outcome \<open>r\<close> of that call: an exception is
  passed on, a missing result and a missing or empty id make \<open>backup\<close> fail with
  ``Storage service did not return a valid hash'', and a non-empty id becomes the \<open>hash\<close>
  of the BackupResult.
\<close>

theorem backup_needs_content_id:
  assumes walk: "processDirectory (crypto m) sourcePath [] options root
                   \<lparr>backupData = [], entropy = rng w, routed = []\<rparr> = (Inr (), ws)"
    and up: "uploadJson st (snd (make_uploadData m (backupData ws) (time w)))
               (path_basename sourcePath) (store w) = (r, s')"
  shows "fst (backup m st sourcePath root options w) =
           (case r of
              Inl e \<Rightarrow> Inl e
            | Inr None \<Rightarrow> Inl (Error ''Storage service did not return a valid hash'')
            | Inr (Some out) \<Rightarrow>
                (case out_id out of
                   None \<Rightarrow> Inl (Error ''Storage service did not return a valid hash'')
                 | Some i \<Rightarrow>
                     if i = [] then Inl (Error ''Storage service did not return a valid hash'')
                     else Inr \<lparr>hash = i,
                               versionInfo = fst (make_uploadData m (backupData ws) (time w)),
                               name = path_basename sourcePath\<rparr>))"
  using walk up
  by (simp add: backup_def Let_def case_prod_beta split: sum.splits option.splits)

theorem backup_needs_content_id_witness:
  "processDirectory (crypto toy_modules) ''src'' [] None hello_tree
     \<lparr>backupData = [], entropy = rng fresh_world, routed = []\<rparr> =
     (Inr (), \<lparr>backupData = hello_snapshot, entropy = (), routed = [(''a.txt'', SingleShot)]\<rparr>) \<and>
   uploadJson memory_storage hello_payload ''src'' (store fresh_world) =
     (Inr (Some \<lparr>out_id = Some ''cid-0''\<rparr>), [(''cid-0'', hello_payload)]) \<and>
   fst (backup toy_modules memory_storage ''src'' hello_tree None fresh_world) =
     Inr \<lparr>hash = ''cid-0'', versionInfo = JObj [(''timestamp'', JNum 1700000000000)],
          name = ''src''\<rparr>"
proof -
  have w: "processDirectory (crypto toy_modules) ''src'' [] None hello_tree
     \<lparr>backupData = [], entropy = rng fresh_world, routed = []\<rparr> =
     (Inr (), \<lparr>backupData = hello_snapshot, entropy = (), routed = [(''a.txt'', SingleShot)]\<rparr>)"
    by (simp add: walk_hello fresh_world_def)
  have t: "time fresh_world = 1700000000000"
    by (simp add: fresh_world_def)
  have u: "uploadJson memory_storage
             (snd (make_uploadData toy_modules
                (backupData \<lparr>backupData = hello_snapshot, entropy = (),
                              routed = [(''a.txt'', SingleShot)]\<rparr>) (time fresh_world)))
             (path_basename ''src'') (store fresh_world) =
           (Inr (Some \<lparr>out_id = Some ''cid-0''\<rparr>), [(''cid-0'', hello_payload)])"
    by (simp add: t payload_hello basename_src memory_storage_def fresh_world_def)
  show ?thesis
    using backup_needs_content_id [OF w u] w u
    by (simp add: t payload_hello basename_src)
qed

section \<open>Properties of the size tiers\<close>

lemma concat_read_chunks: "concat (read_chunks n buf) = buf"
proof (induction n buf rule: read_chunks.induct)
  case (1 n)
  show ?case by simp
next
  case (2 n x xs)
  have "take n xs @ drop n xs = xs" by simp
  with 2 show ?case by simp
qed

lemma large_eq_small:
  "processLargeFile lib fullPath relativePath options node ws =
   processSmallFile lib fullPath relativePath options node ws"
  by (simp add: processLargeFile_def processSmallFile_def createReadStream_def Let_def
      concat_read_chunks split: sum.splits option.splits prod.splits)

lemma small_routed:
  "routed (snd (processSmallFile lib fullPath relativePath options node ws)) = routed ws"
  by (simp add: processSmallFile_def Let_def case_prod_beta split: sum.splits option.splits)

lemma single_entry_route:
  assumes "\<not> excluded options file" and "\<not> over_maxFileSize options (stat_size node)"
    and "\<forall>sub. node \<noteq> Dir sub"
  shows "routed (snd (processEntries lib dirPath baseDir options [(file, node)] ws)) =
         routed ws @ [(backslashes_to_slashes (path_join baseDir file),
                       if stat_size node > 1048576 then Streaming else SingleShot)]"
proof -
  let ?rel = "backslashes_to_slashes (path_join baseDir file)"
  let ?full = "path_join dirPath file"
  have s: "routed (snd (processSmallFile lib ?full ?rel options node (ws\<lparr>routed := routed ws @ [(?rel, r)]\<rparr>))) = routed ws @ [(?rel, r)]" for r
    by (simp add: small_routed)
  show ?thesis
  proof (cases "stat_size node > 1048576")
    case True
    with assms s [of Streaming] show ?thesis
      by (cases node; cases "processSmallFile lib ?full ?rel options node (ws\<lparr>routed := routed ws @ [(?rel, Streaming)]\<rparr>)")
         (auto simp: Let_def large_eq_small split: sum.splits)
  next
    case False
    with assms s [of SingleShot] show ?thesis
      by (cases node; cases "processSmallFile lib ?full ?rel options node (ws\<lparr>routed := routed ws @ [(?rel, SingleShot)]\<rparr>)")
         (auto simp: Let_def split: sum.splits)
  qed
qed

text \<open>
  C7, as stated, fails at the threshold itself: a file of exactly 1 MiB
  (1048576 bytes) is handled by the single-shot path.
\<close>

theorem one_MiB_file_is_read_single_shot:
  "1024 * 1024 \<le> stat_size (File (replicate 1048576 (CHR ''a''))) \<and>
   routed (snd (processEntries toy_crypto ''src'' [] None
                  [(''a.txt'', File (replicate 1048576 (CHR ''a'')))]
                  \<lparr>backupData = [], entropy = (), routed = []\<rparr>)) = [(''a.txt'', SingleShot)]"
proof -
  have "routed (snd (processEntries toy_crypto ''src'' [] None
                  [(''a.txt'', File (replicate 1048576 (CHR ''a'')))]
                  \<lparr>backupData = [], entropy = (), routed = []\<rparr>)) =
        [] @ [(backslashes_to_slashes (path_join [] ''a.txt''),
               if stat_size (File (replicate 1048576 (CHR ''a''))) > 1048576 then Streaming else SingleShot)]"
    using single_entry_route [of None "''a.txt''" "File (replicate 1048576 (CHR ''a''))" toy_crypto "''src''" "[]"
        "\<lparr>backupData = [], entropy = (), routed = []\<rparr>"]
    by (simp add: none_options del: processEntries.simps)
  then show ?thesis by (simp add: join_empty_a slashes_a del: processEntries.simps)
qed

text \<open>
  C7, amended. A file that is neither excluded nor over the maximum size is handled by
  the streaming path when it is larger than 1 MiB (1048576 bytes) and by the single-shot
  path when it is at most that large; and on every input the two paths have the same
  outcome: the same record under the same key, or the same failure.
\<close>

theorem size_tiers_route_and_agree:
  assumes "\<not> excluded options file" and "\<not> over_maxFileSize options (stat_size node)"
    and "\<forall>sub. node \<noteq> Dir sub"
  shows "routed (snd (processEntries lib dirPath baseDir options [(file, node)] ws)) =
           routed ws @ [(backslashes_to_slashes (path_join baseDir file),
                         if stat_size node > 1024 * 1024 then Streaming else SingleShot)] \<and>
         processLargeFile lib fullPath relativePath options node ws' =
           processSmallFile lib fullPath relativePath options node ws'"
  using single_entry_route [OF assms, of lib dirPath baseDir ws]
    large_eq_small [of lib fullPath relativePath options node ws']
  by (simp del: processEntries.simps)

theorem size_tiers_route_and_agree_witness:
  "\<not> excluded None ''a.txt'' \<and> \<not> over_maxFileSize None (stat_size (File ''hello'')) \<and>
   (\<forall>sub. File ''hello'' \<noteq> Dir sub) \<and>
   routed (snd (processEntries toy_crypto ''src'' [] None [(''a.txt'', File ''hello'')]
                  \<lparr>backupData = [], entropy = (), routed = []\<rparr>)) = [(''a.txt'', SingleShot)] \<and>
   processLargeFile toy_crypto ''src/a.txt'' ''a.txt'' None (File ''hello'')
       \<lparr>backupData = [], entropy = (), routed = []\<rparr> =
     processSmallFile toy_crypto ''src/a.txt'' ''a.txt'' None (File ''hello'')
       \<lparr>backupData = [], entropy = (), routed = []\<rparr>"
proof -
  have a: "\<not> excluded None ''a.txt''" "\<not> over_maxFileSize None (stat_size (File ''hello''))"
    "\<forall>sub. File ''hello'' \<noteq> Dir sub"
    by (simp_all add: none_options)
  show ?thesis
    using size_tiers_route_and_agree [OF a, of toy_crypto "''src''" "[]"
        "\<lparr>backupData = [], entropy = (), routed = []\<rparr>" "''src/a.txt''" "''a.txt''"
        "\<lparr>backupData = [], entropy = (), routed = []\<rparr>"] a
    by (simp add: join_empty_a slashes_a del: processEntries.simps)
qed

section \<open>Properties of restore\<close>










section \<open>Properties of compareDetailed\<close>

lemma b64_digits:
  "base64_digit 26 = CHR ''a''" "base64_digit 1670 = CHR ''G''" "base64_digit 106901 = CHR ''V''"
  "base64_digit 6841708 = CHR ''s''" "base64_digit 27 = CHR ''b''" "base64_digit 1734 = CHR ''G''"
  "base64_digit 111036 = CHR ''8''"
  by (simp_all add: base64_digit_def base64_alphabet_def)

lemma b64_hello: "base64_encode ''hello'' = ''aGVsbG8=''"
  by (simp add: Let_def b64_digits)

lemma local_hello:
  "read_local [(''a.txt'', File ''hello'')] \<lparr>own = [], proto = None\<rparr> =
     Inr \<lparr>own = [(''a.txt'', hello_local_record)], proto = None\<rparr>"
  by (simp add: text_src_a b64_hello hello_local_record_def Let_def del: base64_encode.simps)

lemma hello_record_truthy: "truthy (Some hello_record)" "hello_record \<noteq> JNull"
  by (simp_all add: hello_record_def)

lemma compare_hello:
  assumes "H (stringify hello_local_record) \<noteq> H (stringify hello_record)"
  shows "\<exists>r. fst (compareDetailed (toy_modules\<lparr>sha3_256 := H\<rparr>) memory_storage ''cid-0'' ''src''
                 hello_tree hello_world) = Inr r \<and>
         isEqual r = False \<and>
         map (\<lambda>d. (path d, change_type d)) (differences r) = [(''a.txt'', Modified)] \<and>
         totalChanges r = \<lparr>added = 0, modified = 1, deleted = 0\<rparr>"
proof -
  have g: "adapter_get memory_storage ''cid-0'' hello_world =
     (Inr hello_payload, hello_world\<lparr>calls := calls hello_world @ [CallGet ''cid-0'']\<rparr>)"
    by (rule get_hello)
  have d: "js_prop hello_payload ''data'' = Some (JObj hello_snapshot)"
    by (simp add: hello_payload_def js_prop_def)
  have t: "truthy (Some (JObj hello_snapshot))" by simp
  have v: "opt_prop (js_prop hello_payload ''metadata'') ''versionInfo'' =
            Some (JObj [(''timestamp'', JNum 1700000000000)])"
    by (simp add: hello_payload_def js_prop_def)
  have p: "remote_member m' (JObj hello_snapshot) ''a.txt'' = Value hello_record" for m'
    by (simp add: remote_member_def hello_snapshot_def js_prop_def)
  have c: "calculateChecksum (toy_modules\<lparr>sha3_256 := H\<rparr>) x = H (stringify x)" for x
    by (simp add: calculateChecksum_def)
  have l: "compare_local (toy_modules\<lparr>sha3_256 := H\<rparr>) (JObj hello_snapshot)
             [(''a.txt'', hello_local_record)] ([], \<lparr>added = 0, modified = 0, deleted = 0\<rparr>) =
           Inr ([\<lparr>path = ''a.txt'', change_type = Modified,
                  oldChecksum = Some (H (stringify hello_record)),
                  newChecksum = Some (H (stringify hello_local_record)),
                  size_old = Some (getFileSize hello_record),
                  size_new = Some (getFileSize hello_local_record)\<rparr>],
                \<lparr>added = 0, modified = 1, deleted = 0\<rparr>)"
    using assms by (simp add: p c hello_record_truthy Let_def)
  have r: "compare_remote m' \<lparr>own = [(''a.txt'', hello_local_record)], proto = None\<rparr>
             (entries (JObj hello_snapshot)) acc = acc"
    for m' acc
    by (cases acc) (simp add: hello_snapshot_def local_member_def hello_local_record_def)
  have o: "own \<lparr>own = [(''a.txt'', hello_local_record)], proto = None\<rparr> =
             [(''a.txt'', hello_local_record)]"
    by simp
  show ?thesis
    unfolding compareDetailed_def hello_tree_def
    apply (simp only: fsnode.case local_hello sum.case g prod.case d option.case t not_True_eq_False if_False o l r Let_def v)
    apply simp
    done
qed

lemma stringify_hello_local:
  "stringify hello_local_record =
     [CHR ''{'', CHR 0x22] @ ''type'' @ [CHR 0x22, CHR '':'', CHR 0x22] @ ''text'' @
     [CHR 0x22, CHR '','', CHR 0x22] @ ''content'' @ [CHR 0x22, CHR '':'', CHR 0x22] @
     ''aGVsbG8='' @ [CHR 0x22, CHR ''}'']"
  by (simp add: hello_local_record_def json_quote_def json_escape_def)

lemma stringify_hello_record:
  "stringify hello_record =
     [CHR ''{'', CHR 0x22] @ ''type'' @ [CHR 0x22, CHR '':'', CHR 0x22] @ ''text'' @
     [CHR 0x22, CHR '','', CHR 0x22] @ ''content'' @ [CHR 0x22, CHR '':'', CHR 0x22] @
     ''hello'' @ [CHR 0x22, CHR '','', CHR 0x22] @ ''mimeType'' @ [CHR 0x22, CHR '':'', CHR 0x22] @
     ''application/octet-stream'' @ [CHR 0x22, CHR ''}'']"
  by (simp add: hello_record_def json_quote_def json_escape_def)

lemma serialisations_differ: "stringify hello_local_record \<noteq> stringify hello_record"
  by (simp add: stringify_hello_local stringify_hello_record)

lemma payload_hello_digest:
  "make_uploadData (toy_modules\<lparr>sha3_256 := H\<rparr>) hello_snapshot 1700000000000 =
     (JObj [(''timestamp'', JNum 1700000000000)], hello_payload)"
  by (simp add: make_uploadData_def toy_modules_def hello_payload_def Let_def)

lemma backup_hello_digest:
  "backup (toy_modules\<lparr>sha3_256 := H\<rparr>) memory_storage ''src'' hello_tree None fresh_world =
     (Inr \<lparr>hash = ''cid-0'', versionInfo = JObj [(''timestamp'', JNum 1700000000000)],
           name = ''src''\<rparr>, hello_world)"
  by (simp add: backup_def fresh_world_def hello_world_def walk_hello payload_hello_digest
      basename_src memory_storage_def)

lemma toy_digest: "toy_modules\<lparr>sha3_256 := \<lambda>s. s\<rparr> = toy_modules"
  by (simp add: toy_modules_def)

lemma read_local_own:
  "read_local files acc = Inr localData \<Longrightarrow> distinct (map fst (own acc)) \<Longrightarrow>
   \<forall>kv\<in>set (own acc). truthy (Some (snd kv)) \<Longrightarrow>
   distinct (map fst (own localData)) \<and> (\<forall>kv\<in>set (own localData). truthy (Some (snd kv)))"
proof (induction files arbitrary: acc)
  case Nil
  then show ?case by simp
next
  case (Cons fn files)
  obtain fname node where fn: "fn = (fname, node)" by (cases fn)
  show ?case
  proof (cases node)
    case (Dir sub)
    with Cons fn show ?thesis by simp
  next
    case (File content)
    let ?rec = "JObj [(''type'', JStr (if isBinaryFile fname then ''binary'' else ''text'')),
                      (''content'', JStr (base64_encode content))]"
    let ?acc = "\<lparr>own = js_set (own acc) fname ?rec,
                 proto = (if fname = ''__proto__'' then Some ?rec else proto acc)\<rparr>"
    from Cons.prems(1) fn File have run: "read_local files ?acc = Inr localData"
      by (simp add: Let_def)
    have d: "distinct (map fst (own ?acc))"
      using js_set_distinct [OF Cons.prems(2)] by simp
    have t: "\<forall>kv\<in>set (own ?acc). truthy (Some (snd kv))"
    proof
      fix kv assume "kv \<in> set (own ?acc)"
      then have "kv \<in> set (js_set (own acc) fname ?rec)" by simp
      from js_set_values [OF this] Cons.prems(3) show "truthy (Some (snd kv))" by auto
    qed
    from Cons.IH [OF run d t] show ?thesis .
  next
    case (Unreadable n msg)
    with Cons.prems fn show ?thesis by simp
  qed
qed

lemma compare_local_counted:
  "compare_local m remoteData es acc = Inr acc' \<Longrightarrow> counted acc \<Longrightarrow> counted acc'"
proof (induction es arbitrary: acc)
  case Nil
  then show ?case by simp
next
  case (Cons kv es)
  obtain filePath localContent where kv: "kv = (filePath, localContent)" by (cases kv)
  obtain diffs totals where acc: "acc = (diffs, totals)" by (cases acc)
  let ?added = "(diffs @ [\<lparr>path = filePath, change_type = Added, oldChecksum = None,
                       newChecksum = Some (calculateChecksum m localContent),
                       size_old = None, size_new = Some (getFileSize localContent)\<rparr>],
             totals\<lparr>added := added totals + 1\<rparr>)"
  have ca: "counted ?added" using Cons.prems(2) acc by (simp add: counted_def)
  show ?case
  proof (cases "member_truthy (remote_member m remoteData filePath)")
    case False
    with Cons.prems(1) kv acc have "compare_local m remoteData es ?added = Inr acc'" by simp
    from Cons.IH [OF this ca] show ?thesis .
  next
    case True
    show ?thesis
    proof (cases "remote_member m remoteData filePath")
      case Absent
      with True show ?thesis by simp
    next
      case BuiltinFunction
      with True Cons.prems(1) kv acc show ?thesis by simp
    next
      case (Value remoteContent)
      let ?modified = "(diffs @ [\<lparr>path = filePath, change_type = Modified,
                            oldChecksum = Some (calculateChecksum m remoteContent),
                            newChecksum = Some (calculateChecksum m localContent),
                            size_old = Some (getFileSize remoteContent),
                            size_new = Some (getFileSize localContent)\<rparr>],
                  totals\<lparr>modified := modified totals + 1\<rparr>)"
      have cm: "counted ?modified" using Cons.prems(2) acc by (simp add: counted_def)
      show ?thesis
      proof (cases "calculateChecksum m localContent \<noteq> calculateChecksum m remoteContent")
        case diff: True
        with True Value Cons.prems(1) kv acc
        have "compare_local m remoteData es ?modified = Inr acc'" by (simp add: Let_def)
        from Cons.IH [OF this cm] show ?thesis .
      next
        case same: False
        with True Value Cons.prems(1) kv acc
        have "compare_local m remoteData es acc = Inr acc'" by (simp add: Let_def)
        from Cons.IH [OF this Cons.prems(2)] show ?thesis .
      qed
    qed
  qed
qed

lemma compare_remote_counted:
  "counted acc \<Longrightarrow> counted (compare_remote m localData es acc)"
proof (induction es arbitrary: acc)
  case Nil
  then show ?case by simp
next
  case (Cons kv es)
  obtain filePath remoteContent where kv: "kv = (filePath, remoteContent)" by (cases kv)
  obtain diffs totals where acc: "acc = (diffs, totals)" by (cases acc)
  show ?case
  proof (cases "member_truthy (local_member localData filePath)")
    case False
    have "counted (diffs @ [\<lparr>path = filePath, change_type = Deleted,
                     oldChecksum = Some (calculateChecksum m remoteContent), newChecksum = None,
                     size_old = Some (getFileSize remoteContent), size_new = None\<rparr>],
           totals\<lparr>deleted := deleted totals + 1\<rparr>)"
      using Cons.prems acc by (simp add: counted_def)
    from Cons.IH [OF this] False kv acc show ?thesis by simp
  next
    case True
    with Cons kv acc show ?thesis by auto
  qed
qed

lemma compare_local_paths:
  "compare_local m remoteData es acc = Inr acc' \<Longrightarrow>
   distinct (map path (fst acc)) \<Longrightarrow> distinct (map fst es) \<Longrightarrow>
   set (map path (fst acc)) \<inter> fst ` set es = {} \<Longrightarrow>
   distinct (map path (fst acc')) \<and>
   set (map path (fst acc')) \<subseteq> set (map path (fst acc)) \<union> fst ` set es"
proof (induction es arbitrary: acc)
  case Nil
  then show ?case by auto
next
  case (Cons kv es)
  obtain filePath localContent where kv: "kv = (filePath, localContent)" by (cases kv)
  obtain diffs totals where acc: "acc = (diffs, totals)" by (cases acc)
  from Cons.prems kv acc have fresh: "filePath \<notin> set (map path diffs)" "filePath \<notin> fst ` set es"
    and d: "distinct (map path diffs)" "distinct (map fst es)"
    and disj: "set (map path diffs) \<inter> fst ` set es = {}"
    by auto
  have step: "distinct (map path (fst acc')) \<and>
         set (map path (fst acc')) \<subseteq> set (map path diffs) \<union> insert filePath (fst ` set es)"
    if "path x = filePath" and run: "compare_local m remoteData es (diffs @ [x], t) = Inr acc'"
    for x t
  proof -
    have "distinct (map path (fst (diffs @ [x], t)))" using d fresh that by simp
    moreover have "set (map path (fst (diffs @ [x], t))) \<inter> fst ` set es = {}"
      using disj fresh that by auto
    ultimately show ?thesis
      using Cons.IH [OF run] d(2) that by auto
  qed
  have keep: "distinct (map path (fst acc')) \<and>
         set (map path (fst acc')) \<subseteq> set (map path diffs) \<union> insert filePath (fst ` set es)"
    if run: "compare_local m remoteData es (diffs, totals) = Inr acc'"
    using Cons.IH [OF run] d disj by auto
  show ?case
  proof (cases "member_truthy (remote_member m remoteData filePath)")
    case False
    with Cons.prems(1) kv acc have
      "compare_local m remoteData es
         (diffs @ [\<lparr>path = filePath, change_type = Added, oldChecksum = None,
                     newChecksum = Some (calculateChecksum m localContent),
                     size_old = None, size_new = Some (getFileSize localContent)\<rparr>],
          totals\<lparr>added := added totals + 1\<rparr>) = Inr acc'"
      by simp
    from step [OF _ this] kv acc show ?thesis by simp
  next
    case True
    show ?thesis
    proof (cases "remote_member m remoteData filePath")
      case Absent
      with True show ?thesis by simp
    next
      case BuiltinFunction
      with True Cons.prems(1) kv acc show ?thesis by simp
    next
      case (Value remoteContent)
      show ?thesis
      proof (cases "calculateChecksum m localContent \<noteq> calculateChecksum m remoteContent")
        case diff: True
        with True Value Cons.prems(1) kv acc have
          "compare_local m remoteData es
             (diffs @ [\<lparr>path = filePath, change_type = Modified,
                         oldChecksum = Some (calculateChecksum m remoteContent),
                         newChecksum = Some (calculateChecksum m localContent),
                         size_old = Some (getFileSize remoteContent),
                         size_new = Some (getFileSize localContent)\<rparr>],
              totals\<lparr>modified := modified totals + 1\<rparr>) = Inr acc'"
          by (simp add: Let_def)
        from step [OF _ this] kv acc show ?thesis by simp
      next
        case same: False
        with True Value Cons.prems(1) kv acc have
          "compare_local m remoteData es (diffs, totals) = Inr acc'"
          by (simp add: Let_def)
        from keep [OF this] kv acc show ?thesis by simp
      qed
    qed
  qed
qed

lemma compare_remote_paths:
  "distinct (map path (fst acc)) \<Longrightarrow> distinct (map fst es) \<Longrightarrow>
   set (map path (fst acc)) \<inter>
     {k \<in> fst ` set es. \<not> member_truthy (local_member localData k)} = {} \<Longrightarrow>
   distinct (map path (fst (compare_remote m localData es acc)))"
proof (induction es arbitrary: acc)
  case Nil
  then show ?case by simp
next
  case (Cons kv es)
  obtain filePath remoteContent where kv: "kv = (filePath, remoteContent)" by (cases kv)
  obtain diffs totals where acc: "acc = (diffs, totals)" by (cases acc)
  from Cons.prems kv acc have d: "distinct (map path diffs)" "distinct (map fst es)"
    and fresh: "filePath \<notin> fst ` set es"
    and disj: "set (map path diffs) \<inter>
                 {k \<in> fst ` set es. \<not> member_truthy (local_member localData k)} = {}"
    by auto
  show ?case
  proof (cases "member_truthy (local_member localData filePath)")
    case False
    with Cons.prems kv acc have nf: "filePath \<notin> set (map path diffs)" by auto
    let ?x = "\<lparr>path = filePath, change_type = Deleted,
                     oldChecksum = Some (calculateChecksum m remoteContent), newChecksum = None,
                     size_old = Some (getFileSize remoteContent), size_new = None\<rparr>"
    have "distinct (map path (fst (diffs @ [?x], totals\<lparr>deleted := deleted totals + 1\<rparr>)))"
      using d nf by simp
    moreover have "set (map path (fst (diffs @ [?x], totals\<lparr>deleted := deleted totals + 1\<rparr>))) \<inter>
                     {k \<in> fst ` set es. \<not> member_truthy (local_member localData k)} = {}"
      using disj fresh by auto
    ultimately show ?thesis
      using Cons.IH [of "(diffs @ [?x], totals\<lparr>deleted := deleted totals + 1\<rparr>)"] d(2) False kv acc
      by simp
  next
    case True
    with Cons.IH [of "(diffs, totals)"] d disj kv acc show ?thesis by auto
  qed
qed

text \<open>
  C5. In every DetailedComparison that \<open>compareDetailed\<close> returns, for a fetched snapshot
  whose \<open>data\<close> has each key once (as every JavaScript object has): no path occurs twice
  in \<open>differences\<close>, so each path has one entry of one kind; \<open>totalChanges\<close> counts the
  entries of each kind; and \<open>isEqual\<close> holds exactly when \<open>differences\<close> is empty.
\<close>

theorem compareDetailed_invariants:
  assumes ret: "fst (compareDetailed m st h sourcePath root w) = Inr r"
    and fetched: "fst (adapter_get st h w) = Inr backup_json"
    and data: "js_prop backup_json ''data'' = Some remoteData"
    and keys: "distinct (map fst (entries remoteData))"
  shows "distinct (map path (differences r)) \<and>
         added (totalChanges r) = length (filter (\<lambda>d. change_type d = Added) (differences r)) \<and>
         modified (totalChanges r) =
           length (filter (\<lambda>d. change_type d = Modified) (differences r)) \<and>
         deleted (totalChanges r) =
           length (filter (\<lambda>d. change_type d = Deleted) (differences r)) \<and>
         isEqual r = (differences r = [])"
proof -
  from ret obtain files where root: "root = Dir files"
    by (cases root) (auto simp: compareDetailed_def)
  from ret root obtain localData where
    loc: "read_local files \<lparr>own = [], proto = None\<rparr> = Inr localData"
    by (cases "read_local files \<lparr>own = [], proto = None\<rparr>") (auto simp: compareDetailed_def)
  obtain w1 where g: "adapter_get st h w = (Inr backup_json, w1)"
    using fetched by (cases "adapter_get st h w") auto
  let ?zero = "\<lparr>added = 0, modified = 0, deleted = 0\<rparr>"
  from ret root loc g data obtain a1 where
    a1: "compare_local m remoteData (own localData) ([], ?zero) = Inr a1"
    by (cases "compare_local m remoteData (own localData) ([], ?zero)")
       (auto simp: compareDetailed_def split: if_splits)
  let ?a2 = "compare_remote m localData (entries remoteData) a1"
  have res: "differences r = fst ?a2 \<and> totalChanges r = snd ?a2 \<and>
             isEqual r = (length (fst ?a2) = 0)"
    using ret root loc g data a1
    by (cases a1)
       (auto simp: compareDetailed_def Let_def case_prod_beta split: if_splits option.splits)
  have dl: "distinct (map fst (own localData))"
    and tl: "\<forall>kv\<in>set (own localData). truthy (Some (snd kv))"
    using read_local_own [OF loc] by simp_all
  have c0: "counted ([], ?zero)" by (simp add: counted_def)
  have c2: "counted ?a2"
    by (rule compare_remote_counted [OF compare_local_counted [OF a1 c0]])
  have p1: "distinct (map path (fst a1)) \<and> set (map path (fst a1)) \<subseteq> fst ` set (own localData)"
    using compare_local_paths [OF a1] dl by simp
  have present: "member_truthy (local_member localData k)" if "k \<in> fst ` set (own localData)" for k
  proof -
    from that obtain v where "map_of (own localData) k = Some v"
      by (cases "map_of (own localData) k") (auto simp: map_of_eq_None_iff)
    moreover from this have "(k, v) \<in> set (own localData)" by (rule map_of_SomeD)
    ultimately show ?thesis using tl by (auto simp: local_member_def)
  qed
  have "k \<notin> set (map path (fst a1))" if "\<not> member_truthy (local_member localData k)" for k
    using that p1 present by blast
  then have "set (map path (fst a1)) \<inter>
          {k \<in> fst ` set (entries remoteData). \<not> member_truthy (local_member localData k)} = {}"
    by blast
  with p1 keys have p2: "distinct (map path (fst ?a2))"
    by (intro compare_remote_paths) auto
  from res c2 p2 show ?thesis by (simp add: counted_def)
qed

theorem compareDetailed_invariants_witness:
  "\<exists>r. fst (compareDetailed toy_modules memory_storage ''cid-0'' ''src'' hello_tree hello_world) =
         Inr r \<and>
       fst (adapter_get memory_storage ''cid-0'' hello_world) = Inr hello_payload \<and>
       js_prop hello_payload ''data'' = Some (JObj hello_snapshot) \<and>
       distinct (map fst (entries (JObj hello_snapshot))) \<and>
       distinct (map path (differences r)) \<and>
       added (totalChanges r) = length (filter (\<lambda>d. change_type d = Added) (differences r)) \<and>
       modified (totalChanges r) =
         length (filter (\<lambda>d. change_type d = Modified) (differences r)) \<and>
       deleted (totalChanges r) =
         length (filter (\<lambda>d. change_type d = Deleted) (differences r)) \<and>
       isEqual r = (differences r = [])"
proof -
  from compare_hello [of "\<lambda>s. s"] serialisations_differ obtain r where
    r: "fst (compareDetailed toy_modules memory_storage ''cid-0'' ''src'' hello_tree hello_world) =
          Inr r"
    by (auto simp: toy_digest)
  have g: "fst (adapter_get memory_storage ''cid-0'' hello_world) = Inr hello_payload"
    by (simp add: get_hello)
  have d: "js_prop hello_payload ''data'' = Some (JObj hello_snapshot)"
    by (simp add: hello_payload_def js_prop_def)
  have k: "distinct (map fst (entries (JObj hello_snapshot)))"
    by (simp add: hello_snapshot_def)
  from compareDetailed_invariants [OF r g d k] r g d k show ?thesis by blast
qed

text \<open>
  C1 fails in the code. After \<open>backup\<close> of a directory holding \<open>a.txt\<close> with content
  \<open>hello\<close>, \<open>compareDetailed\<close> of the returned hash against the unchanged directory
  compares the stored record \<open>{type, content: "hello", mimeType}\<close> with the local record
  \<open>{type, content: "aGVsbG8="}\<close> it builds itself: for every digest that tells the two
  serialisations apart it reports \<open>a.txt\<close> as modified, with \<open>isEqual = false\<close> and
  \<open>totalChanges = {added: 0, modified: 1, deleted: 0}\<close>.
\<close>

theorem compareDetailed_after_backup_reports_change:
  assumes "H (stringify hello_local_record) \<noteq> H (stringify hello_record)"
  shows "\<exists>b w1 r.
           backup (toy_modules\<lparr>sha3_256 := H\<rparr>) memory_storage ''src'' hello_tree None
             fresh_world = (Inr b, w1) \<and>
           fst (compareDetailed (toy_modules\<lparr>sha3_256 := H\<rparr>) memory_storage (hash b) ''src''
                  hello_tree w1) = Inr r \<and>
           isEqual r = False \<and>
           map (\<lambda>d. (path d, change_type d)) (differences r) = [(''a.txt'', Modified)] \<and>
           totalChanges r = \<lparr>added = 0, modified = 1, deleted = 0\<rparr>"
  using compare_hello [OF assms] backup_hello_digest [of H] by auto

theorem compareDetailed_after_backup_reports_change_witness:
  "stringify hello_local_record \<noteq> stringify hello_record \<and>
   (\<exists>b w1 r.
      backup toy_modules memory_storage ''src'' hello_tree None fresh_world = (Inr b, w1) \<and>
      fst (compareDetailed toy_modules memory_storage (hash b) ''src'' hello_tree w1) = Inr r \<and>
      isEqual r = False \<and>
      map (\<lambda>d. (path d, change_type d)) (differences r) = [(''a.txt'', Modified)] \<and>
      totalChanges r = \<lparr>added = 0, modified = 1, deleted = 0\<rparr>)"
  using compareDetailed_after_backup_reports_change [of "\<lambda>s. s"] serialisations_differ
  by (simp add: toy_digest)

section \<open>Base64 decoding undoes encoding\<close>















section \<open>Relative paths of ordinary names\<close>













lemma ordinary_names_free:
  "\<forall>n\<in>set ns. ordinary_name n \<Longrightarrow> \<forall>n\<in>set ns. CHR ''/'' \<notin> set n"
  by (simp add: ordinary_name_def)







section \<open>The files of an ordinary tree\<close>




section \<open>The round trip of backup and restore\<close>








lemma sample_paths:
  "path_join ''src'' ''img'' = ''src/img''"
  "path_join ''src/img'' ''b.png'' = ''src/img/b.png''"
  "path_join [] ''img'' = ''img''"
  "path_join ''img'' ''b.png'' = ''img/b.png''"
  "path_join ''out'' ''img/b.png'' = ''out/img/b.png''"
  by (simp_all add: path_join_def path_normalize_def)

lemma sample_slashes:
  "backslashes_to_slashes ''img'' = ''img''"
  "backslashes_to_slashes ''img/b.png'' = ''img/b.png''"
  by (simp_all add: backslashes_to_slashes_def)




lemma sample_files:
  "tree_files ''src'' [] [(''a.txt'', File ''hello''), (''img'', Dir [(''b.png'', File ''xyz'')])] =
     [(''src/a.txt'', ''a.txt'', ''hello''), (''src/img/b.png'', ''img/b.png'', ''xyz'')]"
  by (simp add: join_src_a join_empty_a slashes_a sample_paths sample_slashes)


lemma memory_put:
  "uploadJson memory_storage P pinName [] =
     (Inr (Some \<lparr>out_id = Some ''cid-0''\<rparr>), [(''cid-0'', P)])"
  by (simp add: memory_storage_def)











section \<open>Encrypted backups of empty files\<close>

lemma gcm_name: "str_includes ''aes-256-gcm'' ''gcm''"
  by simp

lemma encrypting_requested:
  "passphrase \<noteq> [] \<Longrightarrow>
   encryption_requested (encrypting passphrase) =
     Some \<lparr>enabled = True, key = passphrase, algorithm = Some ''aes-256-gcm''\<rparr>"
  by (simp add: encryption_requested_def encrypting_def)

lemma encrypting_keeps_all:
  "excluded (encrypting passphrase) n = False"
  "over_maxFileSize (encrypting passphrase) k = False"
  by (simp_all add: excluded_def over_maxFileSize_def encrypting_def)

text \<open>
  C8 fails in the code for an empty file. Under \<open>aes-256-gcm\<close> the ciphertext of the
  empty plaintext is empty, so the stored record has \<open>encrypted: ""\<close>. \<open>restore\<close> with
  the same passphrase and algorithm tests \<open>fileData.encrypted\<close> for truthiness, takes the
  record for an unencrypted one without \<open>type\<close>, and throws ``Invalid file data'' instead
  of writing the empty file. This holds for every \<open>crypto\<close> whose cipher maps the empty
  plaintext to the empty ciphertext.
\<close>

theorem encrypted_empty_file_is_not_restored:
  assumes key: "passphrase \<noteq> []"
    and gcm: "cipher_run lib ''aes-256-gcm'' (sha256 lib passphrase)
                (fst (randomBytes lib 16 ())) [] = Inr ([], tag)"
  shows "\<exists>b w1.
           backup (toy_modules\<lparr>crypto := lib\<rparr>) memory_storage ''src'' empty_file_tree
             (encrypting passphrase) fresh_world = (Inr b, w1) \<and>
           fst (restore (toy_modules\<lparr>crypto := lib\<rparr>) memory_storage (hash b) ''out''
                  (encrypting passphrase) w1) =
             Inl (Error ''Failed to restore file a.txt: Invalid file data for a.txt'')"
proof -
  let ?m = "toy_modules\<lparr>crypto := lib\<rparr>"
  let ?iv = "fst (randomBytes lib 16 ())"
  let ?rec = "JObj [(''isEncrypted'', JBool True), (''encrypted'', JStr []),
                    (''iv'', JStr (base64_encode ?iv)), (''authTag'', JStr (base64_encode tag)),
                    (''mimeType'', JStr ''application/octet-stream'')]"
  have enc: "encrypt lib (new_Encryption lib passphrase (Some ''aes-256-gcm'')) [] () =
               (Inr \<lparr>encrypted = [], iv = ?iv, authTag = Some tag\<rparr>, ())"
    using gcm by (simp add: encrypt_def new_Encryption_def case_prod_beta Let_def)
  have small: "processSmallFile lib ''src/a.txt'' ''a.txt'' (encrypting passphrase) (File []) ws =
                 (Inr (), ws\<lparr>backupData := js_set (backupData ws) ''a.txt'' ?rec\<rparr>)"
    if "entropy ws = ()" for ws :: "unit walk"
    using that enc
    by (simp add: processSmallFile_def encrypting_requested [OF key] mime_src_a Let_def)
  have walk: "processDirectory lib ''src'' [] (encrypting passphrase) empty_file_tree
                \<lparr>backupData = [], entropy = (), routed = []\<rparr> =
              (Inr (), \<lparr>backupData = [(''a.txt'', ?rec)], entropy = (),
                        routed = [(''a.txt'', SingleShot)]\<rparr>)"
    by (simp add: empty_file_tree_def encrypting_keeps_all join_src_a join_empty_a slashes_a
        small Let_def)
  let ?snap = "[(''a.txt'', ?rec)]"
  let ?P = "snd (make_uploadData ?m ?snap 1700000000000)"
  let ?w1 = "fresh_world\<lparr>store := [(''cid-0'', ?P)], calls := [CallUploadJson ?P ''src'']\<rparr>"
  have pl: "?P = JObj [(''data'', JObj ?snap),
                      (''metadata'', JObj [(''timestamp'', JNum 1700000000000),
                                          (''type'', JStr ''file-backup''),
                                          (''versionInfo'',
                                           fst (make_uploadData ?m ?snap 1700000000000))])]"
    by (simp add: make_uploadData_def Let_def)
  have bk: "backup ?m memory_storage ''src'' empty_file_tree (encrypting passphrase) fresh_world =
              (Inr \<lparr>hash = ''cid-0'', versionInfo = fst (make_uploadData ?m ?snap 1700000000000),
                    name = ''src''\<rparr>, ?w1)"
    unfolding backup_def
    by (simp add: fresh_world_def walk basename_src memory_put case_prod_beta Let_def
        del: processDirectory.simps)
  have ag: "adapter_get memory_storage ''cid-0'' ?w1 =
              (Inr ?P, ?w1\<lparr>calls := calls ?w1 @ [CallGet ''cid-0'']\<rparr>)"
    by (simp add: adapter_get_def memory_storage_def fresh_world_def pl js_prop_def)
  have dp: "js_prop ?P ''data'' = Some (JObj ?snap)"
    by (simp add: pl js_prop_def)
  have fs: "fs_ensureDir ?m p d = Inr d" for p d
    by (simp add: toy_modules_def)
  have body: "fst (restore_entry_body ?m encryptor ''out/a.txt'' ''a.txt'' ?rec w) =
                Inl (Error ''Invalid file data for a.txt'')" for encryptor w
    by (simp add: restore_entry_body_def js_prop_def fs toy_fs_eq Let_def)
  obtain w2 where b2:
    "restore_entry_body ?m (Some (new_Encryption lib passphrase (Some ''aes-256-gcm'')))
       ''out/a.txt'' ''a.txt'' ?rec
       (?w1\<lparr>calls := calls ?w1 @ [CallGet ''cid-0'']\<rparr>) =
     (Inl (Error ''Invalid file data for a.txt''), w2)"
    using body [of "Some (new_Encryption lib passphrase (Some ''aes-256-gcm''))"
        "?w1\<lparr>calls := calls ?w1 @ [CallGet ''cid-0'']\<rparr>"]
    by (cases "restore_entry_body ?m (Some (new_Encryption lib passphrase (Some ''aes-256-gcm'')))
       ''out/a.txt'' ''a.txt'' ?rec
       (?w1\<lparr>calls := calls ?w1 @ [CallGet ''cid-0'']\<rparr>)") auto
  have rs: "fst (restore ?m memory_storage ''cid-0'' ''out'' (encrypting passphrase) ?w1) =
              Inl (Error ''Failed to restore file a.txt: Invalid file data for a.txt'')"
    unfolding restore_def ag
    using b2
    by (simp add: dp restore_encryption_def encrypting_requested [OF key] join_out_a fs toy_fs_eq
        restore_failure_def fresh_world_def Let_def)
  show ?thesis using bk rs by simp
qed

theorem encrypted_empty_file_is_not_restored_witness:
  "''k'' \<noteq> [] \<and>
   cipher_run toy_crypto ''aes-256-gcm'' (sha256 toy_crypto ''k'')
     (fst (randomBytes toy_crypto 16 ())) [] = Inr ([], ''k'') \<and>
   (\<exists>b w1.
      backup toy_modules memory_storage ''src'' empty_file_tree (encrypting ''k'') fresh_world =
        (Inr b, w1) \<and>
      fst (restore toy_modules memory_storage (hash b) ''out'' (encrypting ''k'') w1) =
        Inl (Error ''Failed to restore file a.txt: Invalid file data for a.txt''))"
proof -
  have k: "''k'' \<noteq> []" by simp
  have c: "cipher_run toy_crypto ''aes-256-gcm'' (sha256 toy_crypto ''k'')
             (fst (randomBytes toy_crypto 16 ())) [] = Inr ([], ''k'')"
    by (simp add: toy_crypto_def)
  have m: "toy_modules\<lparr>crypto := toy_crypto\<rparr> = toy_modules"
    by (simp add: toy_modules_def)
  from encrypted_empty_file_is_not_restored [OF k c] c show ?thesis
    unfolding m by simp
qed

end
